theory Spec2Isabelle
  imports Complex_Main "HOL-Library.Char_ord" "HOL-Library.List_Lexorder" "HOL-Library.Multiset"
    "HOL-Library.Log_Nat"
begin

section \<open>JavaScript values used by the data and map layer\<close>

text \<open>
  A JavaScript \<^verbatim>\<open>number\<close> is a double: \<open>Finite x\<close> stands for the finite double whose value
  is the real \<open>x\<close>, beside \<^verbatim>\<open>Infinity\<close>, \<^verbatim>\<open>-Infinity\<close> and \<^verbatim>\<open>NaN\<close>. Numbers read from a JSON
  payload are finite doubles. Comparisons are exact; the result of an addition, subtraction,
  multiplication or division is the exact result rounded to the nearest double, ties to
  even, and an infinity on overflow (\<open>roundDouble\<close>). The sign of zero is not modelled.
\<close>

datatype number = NaN | NegInfinity | Finite real | Infinity

fun num_lt :: "number \<Rightarrow> number \<Rightarrow> bool" where
  "num_lt NaN b = False"
| "num_lt a NaN = False"
| "num_lt NegInfinity b = (b \<noteq> NegInfinity)"
| "num_lt (Finite x) (Finite y) = (x < y)"
| "num_lt (Finite x) Infinity = True"
| "num_lt (Finite x) NegInfinity = False"
| "num_lt Infinity b = False"

definition num_gt :: "number \<Rightarrow> number \<Rightarrow> bool" where
  "num_gt a b = num_lt b a"

text \<open>Strict equality \<^verbatim>\<open>===\<close> on numbers: \<^verbatim>\<open>NaN\<close> differs from everything.\<close>

definition num_eq :: "number \<Rightarrow> number \<Rightarrow> bool" where
  "num_eq a b = (a \<noteq> NaN \<and> a = b)"

text \<open>An infinity by its sign.\<close>

definition signed_infinity :: "bool \<Rightarrow> number" where
  "signed_infinity negative = (if negative then NegInfinity else Infinity)"

text \<open>
  Rounding to double precision. For \<open>a > 0\<close>, \<open>exponentOf a\<close> is the integer \<open>e\<close> with
  \<open>2^e \<le> a < 2^(e + 1)\<close>. A double has 53 significant bits and its least exponent is
  \<open>-1022\<close> (below it the spacing of the subnormal numbers stays \<open>2^-1074\<close>), so the doubles
  around \<open>a\<close> are the integer multiples of \<open>2^q\<close> with \<open>q = max e (-1022) - 52\<close>;
  \<open>a\<close> is rounded to the nearest of them, to the even multiple at a tie, and to an infinity
  when that reaches \<open>2^1024\<close> (the rounded multiple is at most \<open>2^53\<close>, so this needs
  \<open>q \<ge> 971\<close>).
\<close>

definition pow2 :: "int \<Rightarrow> real" where
  "pow2 q = (if 0 \<le> q then 2 ^ nat q else 1 / 2 ^ nat (- q))"

definition exponentOf :: "real \<Rightarrow> int" where
  "exponentOf a = (if 1 \<le> a then bitlen \<lfloor>a\<rfloor> - 1 else - bitlen (\<lceil>1 / a\<rceil> - 1))"

definition roundHalfEven :: "real \<Rightarrow> int" where
  "roundHalfEven r =
     (let f = \<lfloor>r\<rfloor>
      in if r - of_int f < 1 / 2 then f
         else if 1 / 2 < r - of_int f then f + 1
         else if even f then f else f + 1)"

definition roundDouble :: "real \<Rightarrow> number" where
  "roundDouble x =
     (if x = 0 then Finite 0
      else (let a = \<bar>x\<bar>;
                q = max (exponentOf a) (- 1022) - 52;
                r = of_int (roundHalfEven (a / pow2 q)) * pow2 q
            in if q < 971 then Finite (if x < 0 then - r else r)
               else if 2 ^ 1024 \<le> r then signed_infinity (x < 0)
               else Finite (if x < 0 then - r else r)))"

fun num_neg :: "number \<Rightarrow> number" where
  "num_neg NaN = NaN"
| "num_neg NegInfinity = Infinity"
| "num_neg (Finite x) = Finite (- x)"
| "num_neg Infinity = NegInfinity"

fun num_add :: "number \<Rightarrow> number \<Rightarrow> number" where
  "num_add NaN b = NaN"
| "num_add a NaN = NaN"
| "num_add (Finite x) (Finite y) = roundDouble (x + y)"
| "num_add (Finite x) b = b"
| "num_add a (Finite y) = a"
| "num_add a b = (if a = b then a else NaN)"

definition num_sub :: "number \<Rightarrow> number \<Rightarrow> number" where
  "num_sub a b = num_add a (num_neg b)"

text \<open>The sign of a product or quotient with an infinite operand.\<close>

fun is_negative :: "number \<Rightarrow> bool" where
  "is_negative NegInfinity = True"
| "is_negative (Finite x) = (x < 0)"
| "is_negative a = False"

fun num_mul :: "number \<Rightarrow> number \<Rightarrow> number" where
  "num_mul NaN b = NaN"
| "num_mul a NaN = NaN"
| "num_mul (Finite x) (Finite y) = roundDouble (x * y)"
| "num_mul (Finite x) b = (if x = 0 then NaN else signed_infinity ((x < 0) \<noteq> is_negative b))"
| "num_mul a (Finite y) = (if y = 0 then NaN else signed_infinity (is_negative a \<noteq> (y < 0)))"
| "num_mul a b = signed_infinity (is_negative a \<noteq> is_negative b)"

text \<open>
  Division never raises in JavaScript: a zero divisor gives \<^verbatim>\<open>NaN\<close> (for \<^verbatim>\<open>0 / 0\<close>) or an
  infinity.
\<close>

fun num_div :: "number \<Rightarrow> number \<Rightarrow> number" where
  "num_div NaN b = NaN"
| "num_div a NaN = NaN"
| "num_div (Finite x) (Finite y) =
     (if y = 0 then (if x = 0 then NaN else signed_infinity (x < 0)) else roundDouble (x / y))"
| "num_div (Finite x) b = Finite 0"
| "num_div a (Finite y) = signed_infinity (is_negative a \<noteq> (y < 0))"
| "num_div a b = NaN"

section \<open>Score data (types/score.ts)\<close>

record CountyScore =
  fips :: string
  name :: string
  state :: string
  score :: real
  establishmentCount :: real
  populationPerBiz :: real

text \<open>
  \<^verbatim>\<open>IndustryScores = Record<string, CountyScore>\<close>: the own properties of the object in
  the order they were inserted (the order of the JSON payload). The keys of an object are
  pairwise distinct.
\<close>

type_synonym IndustryScores = "(string \<times> CountyScore) list"

subsection \<open>Property enumeration order of \<^verbatim>\<open>Object.entries\<close> and \<^verbatim>\<open>Object.values\<close>\<close>

text \<open>
  ECMAScript enumerates the own string keys of an ordinary object with the array indices
  first (canonical decimal numerals below \<open>2^32 - 1\<close>), in ascending numeric order, and
  then every other key in insertion order.
\<close>

definition digits :: "(char \<times> nat) list" where
  "digits = [(CHR ''0'', 0), (CHR ''1'', 1), (CHR ''2'', 2), (CHR ''3'', 3), (CHR ''4'', 4),
     (CHR ''5'', 5), (CHR ''6'', 6), (CHR ''7'', 7), (CHR ''8'', 8), (CHR ''9'', 9)]"

fun parseDigits :: "nat \<Rightarrow> string \<Rightarrow> nat option" where
  "parseDigits n [] = Some n"
| "parseDigits n (c # cs) =
     (case map_of digits c of None \<Rightarrow> None | Some d \<Rightarrow> parseDigits (10 * n + d) cs)"

definition isArrayIndex :: "string \<Rightarrow> bool" where
  "isArrayIndex s = (s \<noteq> [] \<and> (s = ''0'' \<or> hd s \<noteq> CHR ''0'') \<and>
     (case parseDigits 0 s of None \<Rightarrow> False | Some n \<Rightarrow> n < 4294967295))"

definition arrayIndex :: "string \<Rightarrow> nat" where
  "arrayIndex s = (case parseDigits 0 s of None \<Rightarrow> 0 | Some n \<Rightarrow> n)"

definition Object_entries :: "(string \<times> 'a) list \<Rightarrow> (string \<times> 'a) list" where
  "Object_entries obj =
     sort_key (\<lambda>kv. arrayIndex (fst kv)) (filter (\<lambda>kv. isArrayIndex (fst kv)) obj)
     @ filter (\<lambda>kv. \<not> isArrayIndex (fst kv)) obj"

definition Object_values :: "(string \<times> 'a) list \<Rightarrow> 'a list" where
  "Object_values obj = map snd (Object_entries obj)"

section \<open>Top counties (hooks/useIndustryData.ts)\<close>

text \<open>
  \<^verbatim>\<open>Object.values(scores).sort((a, b) => b.score - a.score).slice(0, 10)\<close>.
  \<^verbatim>\<open>Array.prototype.sort\<close> is stable; on finite scores the comparator orders by
  descending score, that is by ascending \<open>- score\<close>. The hook has no parameter for the
  length of the list: the bound 10 is fixed.
\<close>

definition topCounties :: "IndustryScores option \<Rightarrow> CountyScore list" where
  "topCounties scores =
     (case scores of
        None \<Rightarrow> []
      | Some s \<Rightarrow> take 10 (sort_key (\<lambda>e. - score e) (Object_values s)))"

text \<open>The order the specification asks for among entries of equal score.\<close>

definition tiesByFipsAscending :: "CountyScore list \<Rightarrow> bool" where
  "tiesByFipsAscending xs = sorted_wrt (\<lambda>a b. score a \<noteq> score b \<or> fips a \<le> fips b) xs"

definition harris :: CountyScore where
  "harris = \<lparr>fips = ''48201'', name = ''Harris County'', state = ''TX'', score = 50,
     establishmentCount = 45, populationPerBiz = 102000\<rparr>"

definition losAngeles :: CountyScore where
  "losAngeles = \<lparr>fips = ''06037'', name = ''Los Angeles County'', state = ''CA'', score = 50,
     establishmentCount = 200, populationPerBiz = 50000\<rparr>"

definition tiedScores :: IndustryScores where
  "tiedScores = [(''06037'', losAngeles), (''48201'', harris)]"

section \<open>Fill-colour expression (components/map/ChoroplethLayer.tsx, data/colorScales.ts)\<close>

datatype MetricKey = Metric_score | Metric_establishmentCount | Metric_populationPerBiz

text \<open>\<^verbatim>\<open>entry[metric]\<close>\<close>

fun metricValue :: "CountyScore \<Rightarrow> MetricKey \<Rightarrow> real" where
  "metricValue e Metric_score = score e"
| "metricValue e Metric_establishmentCount = establishmentCount e"
| "metricValue e Metric_populationPerBiz = populationPerBiz e"

record ColorStop =
  stop_value :: real
  stop_color :: string

definition choroplethScale :: "ColorStop list" where
  "choroplethScale =
     [\<lparr>stop_value = 0, stop_color = ''#e5e7eb''\<rparr>,
      \<lparr>stop_value = 50, stop_color = ''#a5b4fc''\<rparr>,
      \<lparr>stop_value = 100, stop_color = ''#3730a3''\<rparr>]"

text \<open>A style expression of the rendering engine: a nested array of strings and numbers.\<close>

datatype expr = Str string | Num number | Arr "expr list"

text \<open>
  The loop \<^verbatim>\<open>for (const v of values) { if (v < min) min = v; if (v > max) max = v; }\<close>
  started from \<^verbatim>\<open>min = Infinity\<close>, \<^verbatim>\<open>max = -Infinity\<close>.
\<close>

definition minMaxStep :: "number \<Rightarrow> number \<times> number \<Rightarrow> number \<times> number" where
  "minMaxStep v mm =
     (let mn = (if num_lt v (fst mm) then v else fst mm);
          mx = (if num_gt v (snd mm) then v else snd mm)
      in (mn, mx))"

definition minMaxLoop :: "number list \<Rightarrow> number \<times> number" where
  "minMaxLoop vs = fold minMaxStep vs (Infinity, NegInfinity)"

text \<open>
  The pair \<^verbatim>\<open>(min, max)\<close> after the first block of \<^verbatim>\<open>buildFillColorExpression\<close>: the fixed
  range 0 to 100 for the score, and otherwise the range of the metric's values with
  \<^verbatim>\<open>if (max === min) max = min + 1\<close>.
\<close>

definition metricRange :: "IndustryScores \<Rightarrow> MetricKey \<Rightarrow> number \<times> number" where
  "metricRange scores metric =
     (if metric \<noteq> Metric_score then
        (let vs = map (\<lambda>kv. Finite (metricValue (snd kv) metric)) (Object_entries scores);
             mm = minMaxLoop vs;
             mn = fst mm;
             mx = snd mm
         in (mn, if num_eq mx mn then num_add mn (Finite 1) else mx))
      else (Finite 0, Finite 100))"

text \<open>\<^verbatim>\<open>metric === 'score' ? raw : ((raw - min) / (max - min)) * 100\<close>\<close>

definition normalised :: "MetricKey \<Rightarrow> number \<Rightarrow> number \<Rightarrow> number \<Rightarrow> number" where
  "normalised metric raw mn mx =
     (if metric = Metric_score then raw
      else num_mul (num_div (num_sub raw mn) (num_sub mx mn)) (Finite 100))"

definition fipsPairs :: "IndustryScores \<Rightarrow> MetricKey \<Rightarrow> expr list" where
  "fipsPairs scores metric =
     (let mm = metricRange scores metric
      in concat (map (\<lambda>kv. [Str (fst kv),
            Num (normalised metric (Finite (metricValue (snd kv) metric)) (fst mm) (snd mm))])
          (Object_entries scores)))"

definition buildFillColorExpression :: "IndustryScores \<Rightarrow> MetricKey \<Rightarrow> expr" where
  "buildFillColorExpression scores metric =
     Arr [Str ''interpolate'',
          Arr [Str ''linear''],
          Arr ([Str ''match'', Arr [Str ''get'', Str ''GEOID'']] @ fipsPairs scores metric
               @ [Num (Finite 0)]),
          Num (Finite (stop_value (choroplethScale ! 0))), Str (stop_color (choroplethScale ! 0)),
          Num (Finite (stop_value (choroplethScale ! 1))), Str (stop_color (choroplethScale ! 1)),
          Num (Finite (stop_value (choroplethScale ! 2))), Str (stop_color (choroplethScale ! 2))]"

text \<open>
  What the rendering engine does with the expression \<^verbatim>\<open>['match', input, label, output, ...,
  fallback]\<close>, as its style specification documents it: the input is evaluated on the
  feature (\<^verbatim>\<open>['get', key]\<close> reads the feature's property \<open>key\<close>), it is compared with each
  label in turn, the output after the first equal label is selected, and the last element is
  the fallback when no label is equal (as when the feature has no such property).
\<close>

fun matchBranches :: "expr list \<Rightarrow> string \<Rightarrow> expr option" where
  "matchBranches [] key = None"
| "matchBranches [fallback] key = Some fallback"
| "matchBranches (label # output # rest) key =
     (if label = Str key then Some output else matchBranches rest key)"

fun evalGet :: "expr \<Rightarrow> (string \<times> string) list \<Rightarrow> string option" where
  "evalGet (Arr [Str g, Str key]) props = (if g = ''get'' then map_of props key else None)"
| "evalGet e props = None"

fun evalMatch :: "expr \<Rightarrow> (string \<times> string) list \<Rightarrow> expr option" where
  "evalMatch (Arr (Str m # input # branches)) props =
     (if m = ''match'' \<and> branches \<noteq> []
      then (case evalGet input props of
              Some key \<Rightarrow> matchBranches branches key
            | None \<Rightarrow> Some (last branches))
      else None)"
| "evalMatch e props = None"

text \<open>The third element of the expression: the join-key table.\<close>

fun matchTable :: "expr \<Rightarrow> expr" where
  "matchTable (Arr (a # b # m # rest)) = m"
| "matchTable e = e"

text \<open>
  The least and the greatest value of the metric over all entries, the value the
  specification gives for an entry (its formula, with those two bounds), and the value the
  table holds (the same formula, in the same arithmetic of doubles, with the upper bound
  replaced by \<^verbatim>\<open>min + 1\<close> when the two bounds coincide).
\<close>

definition metricMin :: "IndustryScores \<Rightarrow> MetricKey \<Rightarrow> real" where
  "metricMin scores metric = Min ((\<lambda>kv. metricValue (snd kv) metric) ` set scores)"

definition metricMax :: "IndustryScores \<Rightarrow> MetricKey \<Rightarrow> real" where
  "metricMax scores metric = Max ((\<lambda>kv. metricValue (snd kv) metric) ` set scores)"

definition claimedValue :: "IndustryScores \<Rightarrow> MetricKey \<Rightarrow> CountyScore \<Rightarrow> number" where
  "claimedValue scores metric e =
     (if metric = Metric_score then Finite (score e)
      else num_mul (num_div (num_sub (Finite (metricValue e metric)) (Finite (metricMin scores metric)))
                      (num_sub (Finite (metricMax scores metric)) (Finite (metricMin scores metric))))
             (Finite 100))"

definition upperBound :: "IndustryScores \<Rightarrow> MetricKey \<Rightarrow> number" where
  "upperBound scores metric =
     (if metricMax scores metric = metricMin scores metric
      then num_add (Finite (metricMin scores metric)) (Finite 1)
      else Finite (metricMax scores metric))"

definition tableValue :: "IndustryScores \<Rightarrow> MetricKey \<Rightarrow> CountyScore \<Rightarrow> number" where
  "tableValue scores metric e =
     (if metric = Metric_score then Finite (score e)
      else num_mul (num_div (num_sub (Finite (metricValue e metric)) (Finite (metricMin scores metric)))
                      (num_sub (upperBound scores metric) (Finite (metricMin scores metric))))
             (Finite 100))"

text \<open>Sample score sets, after the unit tests of \<^verbatim>\<open>buildFillColorExpression\<close>.\<close>

definition county :: "string \<Rightarrow> real \<Rightarrow> real \<Rightarrow> real \<Rightarrow> CountyScore" where
  "county f s ec ppb = \<lparr>fips = f, name = ''Test County'', state = ''TX'', score = s,
     establishmentCount = ec, populationPerBiz = ppb\<rparr>"

definition singleCounty :: IndustryScores where
  "singleCounty = [(''48001'', county ''48001'' 75 10 500)]"

definition twoCounties :: IndustryScores where
  "twoCounties = [(''48001'', county ''48001'' 50 10 200), (''48002'', county ''48002'' 60 110 200)]"

text \<open>Two counties with the same population per business, \<open>2^53\<close>.\<close>

definition hugeCounties :: IndustryScores where
  "hugeCounties = [(''48001'', county ''48001'' 50 10 9007199254740992),
                   (''48002'', county ''48002'' 60 110 9007199254740992)]"

text \<open>Three counties with establishment counts 0, 1 and 3.\<close>

definition threeCounties :: IndustryScores where
  "threeCounties = [(''48001'', county ''48001'' 50 0 200), (''48002'', county ''48002'' 60 1 200),
                    (''48003'', county ''48003'' 70 3 200)]"

section \<open>Geometry payload (components/map/ChoroplethLayer.tsx)\<close>

text \<open>
  A parsed JSON value. An object is the list of its members; \<open>getProp\<close> reads a property of
  a value that is not \<^verbatim>\<open>null\<close>, with \<open>None\<close> for \<^verbatim>\<open>undefined\<close> (only the names
  \<^verbatim>\<open>type\<close>, \<^verbatim>\<open>features\<close>, \<^verbatim>\<open>geometry\<close>, \<^verbatim>\<open>properties\<close> and \<^verbatim>\<open>GEOID\<close> are read, none of which
  is a built-in property of an array, a string, a number or a boolean).
\<close>

datatype json = JNull | JBool bool | JNumber real | JString string | JArray "json list"
  | JObject "(string \<times> json) list"

fun getProp :: "json \<Rightarrow> string \<Rightarrow> json option" where
  "getProp (JObject members) p = map_of members p"
| "getProp v p = None"

text \<open>\<^verbatim>\<open>typeof v === 'object'\<close> holds of objects, arrays and \<^verbatim>\<open>null\<close>.\<close>

fun typeofObject :: "json \<Rightarrow> bool" where
  "typeofObject JNull = True"
| "typeofObject (JArray xs) = True"
| "typeofObject (JObject members) = True"
| "typeofObject v = False"

text \<open>\<^verbatim>\<open>props?.GEOID\<close>: \<^verbatim>\<open>undefined\<close> when \<open>props\<close> is \<^verbatim>\<open>undefined\<close> or \<^verbatim>\<open>null\<close>.\<close>

fun optionalProp :: "json option \<Rightarrow> string \<Rightarrow> json option" where
  "optionalProp None p = None"
| "optionalProp (Some JNull) p = None"
| "optionalProp (Some v) p = getProp v p"

fun typeofString :: "json option \<Rightarrow> bool" where
  "typeofString (Some (JString s)) = True"
| "typeofString v = False"

text \<open>\<^verbatim>\<open>typeof v === 'object' && v !== null\<close> of a property that may be \<^verbatim>\<open>undefined\<close>.\<close>

fun nonNullObject :: "json option \<Rightarrow> bool" where
  "nonNullObject None = False"
| "nonNullObject (Some v) = (typeofObject v \<and> v \<noteq> JNull)"

datatype jsError = TypeError

text \<open>
  \<^verbatim>\<open>validateGeoJSON\<close>. Reading \<^verbatim>\<open>first.type\<close> of a first feature that is \<^verbatim>\<open>null\<close> throws a
  \<^verbatim>\<open>TypeError\<close> (the caller's \<^verbatim>\<open>try\<close> turns it into the error status).
\<close>

definition validateGeoJSON :: "json \<Rightarrow> jsError + bool" where
  "validateGeoJSON data =
     (if \<not> typeofObject data \<or> data = JNull then Inr False
      else if getProp data ''type'' \<noteq> Some (JString ''FeatureCollection'') then Inr False
      else (case getProp data ''features'' of
              Some (JArray features) \<Rightarrow>
                (case features of
                   [] \<Rightarrow> Inr True
                 | first # others \<Rightarrow>
                     if first = JNull then Inl TypeError
                     else if getProp first ''type'' \<noteq> Some (JString ''Feature'') then Inr False
                     else if \<not> nonNullObject (getProp first ''geometry'') then Inr False
                     else if \<not> typeofString (optionalProp (getProp first ''properties'') ''GEOID'')
                       then Inr False
                     else Inr True)
            | other \<Rightarrow> Inr False))"

text \<open>
  The validity the specification describes: every feature carries the join key and a nested
  geometry object.
\<close>

definition carriesJoinKeyAndGeometry :: "json \<Rightarrow> bool" where
  "carriesJoinKeyAndGeometry f =
     (f \<noteq> JNull \<and> typeofString (optionalProp (getProp f ''properties'') ''GEOID'')
      \<and> nonNullObject (getProp f ''geometry''))"

definition everyFeatureValid :: "json \<Rightarrow> bool" where
  "everyFeatureValid data =
     (typeofObject data \<and> data \<noteq> JNull
      \<and> getProp data ''type'' = Some (JString ''FeatureCollection'')
      \<and> (case getProp data ''features'' of
            Some (JArray features) \<Rightarrow> list_all carriesJoinKeyAndGeometry features
          | other \<Rightarrow> False))"

text \<open>What the spot check asks of the first feature.\<close>

definition firstFeatureValid :: "json \<Rightarrow> bool" where
  "firstFeatureValid f =
     (f \<noteq> JNull \<and> getProp f ''type'' = Some (JString ''Feature'')
      \<and> nonNullObject (getProp f ''geometry'')
      \<and> typeofString (optionalProp (getProp f ''properties'') ''GEOID''))"

definition featureCollection :: "json list \<Rightarrow> json" where
  "featureCollection features =
     JObject [(''type'', JString ''FeatureCollection''), (''features'', JArray features)]"

definition countyFeature :: "string \<Rightarrow> json" where
  "countyFeature geoid =
     JObject [(''type'', JString ''Feature''),
              (''properties'', JObject [(''GEOID'', JString geoid)]),
              (''geometry'', JObject [(''type'', JString ''Polygon''), (''coordinates'', JArray [])])]"

definition featureWithoutJoinKey :: json where
  "featureWithoutJoinKey =
     JObject [(''type'', JString ''Feature''), (''properties'', JObject []), (''geometry'', JNull)]"

section \<open>Features of the map (GeoJSON)\<close>

text \<open>
  The coordinates of a geometry: a position is an array of numbers (longitude first), and
  positions are nested in arrays to any depth.
\<close>

datatype coords = Position "real list" | Nested "coords list"

text \<open>
  A geometry is a \<^verbatim>\<open>GeometryCollection\<close> (which has no \<^verbatim>\<open>coordinates\<close>) or any other
  geometry type with its coordinates.
\<close>

datatype Geometry = GeometryCollection | Coordinates coords

text \<open>
  A feature: its properties (\<open>None\<close> for \<^verbatim>\<open>null\<close>), with the string values the code reads
  them as (\<^verbatim>\<open>GEOID\<close>, \<^verbatim>\<open>NAME\<close>, \<^verbatim>\<open>STATE\<close>), and its geometry (\<open>None\<close> for \<^verbatim>\<open>null\<close>).
\<close>

record Feature =
  properties :: "(string \<times> string) list option"
  geometry :: "Geometry option"

text \<open>\<^verbatim>\<open>feature.properties?.KEY\<close>\<close>

definition property :: "Feature \<Rightarrow> string \<Rightarrow> string option" where
  "property f key = (case properties f of None \<Rightarrow> None | Some ps \<Rightarrow> map_of ps key)"

section \<open>Hover tooltip (components/map/MapTooltip.tsx)\<close>

record TooltipState =
  tooltip_x :: real
  tooltip_y :: real
  countyName :: string
  stateName :: string
  tooltip_score :: "real option"

text \<open>The mouse event: \<^verbatim>\<open>e.features\<close> (which may be \<^verbatim>\<open>undefined\<close>) and \<^verbatim>\<open>e.point\<close>.\<close>

record MapLayerMouseEvent =
  features :: "Feature list option"
  point_x :: real
  point_y :: real

text \<open>\<^verbatim>\<open>e.features?.[0]\<close>\<close>

definition firstFeature :: "MapLayerMouseEvent \<Rightarrow> Feature option" where
  "firstFeature e =
     (case features e of None \<Rightarrow> None | Some fs \<Rightarrow> (case fs of [] \<Rightarrow> None | f # rest \<Rightarrow> Some f))"

text \<open>A string that may be \<^verbatim>\<open>undefined\<close> is falsy when it is \<^verbatim>\<open>undefined\<close> or empty.\<close>

fun falsy :: "string option \<Rightarrow> bool" where
  "falsy None = True"
| "falsy (Some s) = (s = [])"

text \<open>\<^verbatim>\<open>scoresRef.current?.[fips]\<close>\<close>

definition scoreEntryOf :: "IndustryScores option \<Rightarrow> string \<Rightarrow> CountyScore option" where
  "scoreEntryOf scoresRef key = (case scoresRef of None \<Rightarrow> None | Some s \<Rightarrow> map_of s key)"

text \<open>
  The callback that \<^verbatim>\<open>handleMouseMove\<close> schedules for the next animation frame; the result
  is the argument of \<^verbatim>\<open>setTooltip\<close> (\<open>None\<close> for \<^verbatim>\<open>null\<close>).
\<close>

definition frameUpdate :: "IndustryScores option \<Rightarrow> MapLayerMouseEvent \<Rightarrow> TooltipState option" where
  "frameUpdate scoresRef e =
     (case firstFeature e of
        None \<Rightarrow> None
      | Some feature \<Rightarrow>
          (let fips = property feature ''GEOID'';
               name = property feature ''NAME''
           in if falsy fips \<or> falsy name then None
              else (let scoreEntry = scoreEntryOf scoresRef (the fips)
                    in Some \<lparr>tooltip_x = point_x e, tooltip_y = point_y e,
                             countyName = the name,
                             stateName = (case scoreEntry of None \<Rightarrow> [] | Some se \<Rightarrow> state se),
                             tooltip_score = (case scoreEntry of None \<Rightarrow> None
                                              | Some se \<Rightarrow> Some (score se))\<rparr>)))"

definition cookCounty :: Feature where
  "cookCounty = \<lparr>properties = Some [(''GEOID'', ''17031''), (''NAME'', ''Cook''), (''STATE'', ''17'')],
     geometry = None\<rparr>"

definition namelessFeature :: Feature where
  "namelessFeature = \<lparr>properties = Some [(''GEOID'', ''17031'')], geometry = None\<rparr>"

definition hoverOver :: "Feature \<Rightarrow> MapLayerMouseEvent" where
  "hoverOver f = \<lparr>features = Some [f], point_x = 120, point_y = 80\<rparr>"

section \<open>Viewport fit for a state filter (components/map/MapView.tsx)\<close>

text \<open>
  An entry of the static table \<^verbatim>\<open>stateList\<close> (data/stateList.ts, whose contents are a
  parameter here): \<^verbatim>\<open>{ abbreviation, name, fips }\<close> (\<open>abbreviation\<close> is a keyword of
  Isabelle, hence the prefix).
\<close>

record StateEntry =
  entry_abbreviation :: string
  entry_name :: string
  entry_fips :: string

record BBox =
  minLng :: number
  minLat :: number
  maxLng :: number
  maxLat :: number

definition emptyBox :: BBox where
  "emptyBox = \<lparr>minLng = Infinity, minLat = Infinity, maxLng = NegInfinity, maxLat = NegInfinity\<rparr>"

text \<open>The four comparisons made for a position \<^verbatim>\<open>[lng, lat, ...]\<close>.\<close>

definition extendBox :: "BBox \<Rightarrow> number \<Rightarrow> number \<Rightarrow> BBox" where
  "extendBox b lng lat =
     \<lparr>minLng = (if num_lt lng (minLng b) then lng else minLng b),
      minLat = (if num_lt lat (minLat b) then lat else minLat b),
      maxLng = (if num_gt lng (maxLng b) then lng else maxLng b),
      maxLat = (if num_gt lat (maxLat b) then lat else maxLat b)\<rparr>"

text \<open>
  \<^verbatim>\<open>current[1]\<close> of a position: \<^verbatim>\<open>undefined\<close> when the position has one element only, and
  every comparison with \<^verbatim>\<open>undefined\<close> is false, as with \<^verbatim>\<open>NaN\<close>.
\<close>

fun latitude :: "real list \<Rightarrow> number" where
  "latitude [] = NaN"
| "latitude (lat # rest) = Finite lat"

text \<open>
  The loop \<^verbatim>\<open>while (stack.length > 0)\<close>. The head of the list is the top of the stack:
  \<^verbatim>\<open>pop\<close> takes it, and pushing the items of an array in order leaves the last item on top.
  An array whose first element is a number is a position; any other array (the empty one
  too) has its items pushed.
\<close>

function walk :: "coords list \<Rightarrow> BBox \<Rightarrow> BBox" where
  "walk [] b = b"
| "walk (Position [] # stack) b = walk stack b"
| "walk (Position (lng # rest) # stack) b = walk stack (extendBox b (Finite lng) (latitude rest))"
| "walk (Nested items # stack) b = walk (rev items @ stack) b"
  by pat_completeness auto
termination
  by (relation "measure (\<lambda>(stack, b). size_list size stack)")
     (simp_all add: size_list_conv_sum_list rev_map [symmetric])

text \<open>The body of \<^verbatim>\<open>for (const feature of features)\<close>.\<close>

definition featureBox :: "Feature \<Rightarrow> BBox \<Rightarrow> BBox" where
  "featureBox feature b =
     (case geometry feature of
        None \<Rightarrow> b
      | Some GeometryCollection \<Rightarrow> b
      | Some (Coordinates c) \<Rightarrow> walk [c] b)"

text \<open>The calls the effect makes on the map.\<close>

datatype MapCall =
    FlyTo real real real
  | FitBounds number number number number real real

text \<open>
  The effect that fits the viewport: \<open>mapRef\<close> tells whether \<^verbatim>\<open>mapRef.current\<close> holds the
  map, \<open>geojsonRef\<close> is \<^verbatim>\<open>geojsonRef.current\<close> (the features of the cached collection).
  The result is the call made on the map, if any. An empty \<^verbatim>\<open>stateFilter\<close> is falsy, like
  \<^verbatim>\<open>null\<close>.
\<close>

definition fitBoundsEffect ::
  "bool \<Rightarrow> StateEntry list \<Rightarrow> string option \<Rightarrow> Feature list option \<Rightarrow> MapCall option" where
  "fitBoundsEffect mapRef stateList stateFilter geojsonRef =
     (if \<not> mapRef then None
      else if falsy stateFilter then Some (FlyTo (- 98.5) 39.8 4)
      else (case find (\<lambda>s. entry_abbreviation s = the stateFilter) stateList of
              None \<Rightarrow> None
            | Some stateEntry \<Rightarrow>
                (case geojsonRef of
                   None \<Rightarrow> None
                 | Some geojson \<Rightarrow>
                     (let fs = filter (\<lambda>f. property f ''STATE'' = Some (entry_fips stateEntry)) geojson
                      in if length fs = 0 then None
                         else (let b = fold featureBox fs emptyBox
                               in if num_lt (minLng b) (maxLng b) \<and> num_lt (minLat b) (maxLat b)
                                  then Some (FitBounds (minLng b) (minLat b) (maxLng b) (maxLat b) 40 10)
                                  else None)))))"

text \<open>
  The longitudes and latitudes of all positions nested in coordinates, of a feature (none
  for a \<^verbatim>\<open>null\<close> geometry or a \<^verbatim>\<open>GeometryCollection\<close>) and of a list of features.
\<close>

fun longitudes :: "coords \<Rightarrow> real set" where
  "longitudes (Position []) = {}"
| "longitudes (Position (lng # rest)) = {lng}"
| "longitudes (Nested items) = (\<Union>c \<in> set items. longitudes c)"

fun latitudes :: "coords \<Rightarrow> real set" where
  "latitudes (Position (lng # lat # rest)) = {lat}"
| "latitudes (Position p) = {}"
| "latitudes (Nested items) = (\<Union>c \<in> set items. latitudes c)"

definition featureLongitudes :: "Feature \<Rightarrow> real set" where
  "featureLongitudes f = (case geometry f of Some (Coordinates c) \<Rightarrow> longitudes c | other \<Rightarrow> {})"

definition featureLatitudes :: "Feature \<Rightarrow> real set" where
  "featureLatitudes f = (case geometry f of Some (Coordinates c) \<Rightarrow> latitudes c | other \<Rightarrow> {})"

text \<open>The features of the cached geometry whose \<^verbatim>\<open>STATE\<close> property is the region code.\<close>

definition matching :: "StateEntry \<Rightarrow> Feature list \<Rightarrow> Feature list" where
  "matching stateEntry geojson = filter (\<lambda>f. property f ''STATE'' = Some (entry_fips stateEntry)) geojson"

text \<open>
  The bound of an axis over a finite set of coordinates: the initial \<^verbatim>\<open>Infinity\<close> (or
  \<^verbatim>\<open>-Infinity\<close>) when there is none, and the least (or greatest) of them otherwise.
\<close>

definition lowest :: "real set \<Rightarrow> number" where
  "lowest S = (if S = {} then Infinity else Finite (Min S))"

definition highest :: "real set \<Rightarrow> number" where
  "highest S = (if S = {} then NegInfinity else Finite (Max S))"

definition boxOf :: "real set \<Rightarrow> real set \<Rightarrow> BBox" where
  "boxOf L T = \<lparr>minLng = lowest L, minLat = lowest T, maxLng = highest L, maxLat = highest T\<rparr>"

definition fitLongitudes :: "StateEntry \<Rightarrow> Feature list \<Rightarrow> real set" where
  "fitLongitudes stateEntry geojson = (\<Union>f \<in> set (matching stateEntry geojson). featureLongitudes f)"

definition fitLatitudes :: "StateEntry \<Rightarrow> Feature list \<Rightarrow> real set" where
  "fitLatitudes stateEntry geojson = (\<Union>f \<in> set (matching stateEntry geojson). featureLatitudes f)"

text \<open>A table with Texas, and two county features of Texas and one of Florida.\<close>

definition sampleStates :: "StateEntry list" where
  "sampleStates = [\<lparr>entry_abbreviation = ''FL'', entry_name = ''Florida'', entry_fips = ''12''\<rparr>,
                   \<lparr>entry_abbreviation = ''TX'', entry_name = ''Texas'', entry_fips = ''48''\<rparr>]"

definition harrisFeature :: Feature where
  "harrisFeature =
     \<lparr>properties = Some [(''GEOID'', ''48201''), (''NAME'', ''Harris''), (''STATE'', ''48'')],
      geometry = Some (Coordinates (Nested [Nested [Position [- 96, 29], Position [- 95, 30]]]))\<rparr>"

definition browardFeature :: Feature where
  "browardFeature =
     \<lparr>properties = Some [(''GEOID'', ''12011''), (''NAME'', ''Broward''), (''STATE'', ''12'')],
      geometry = Some (Coordinates (Nested [Nested [Position [- 81, 26], Position [- 80, 27]]]))\<rparr>"

definition dallasFeature :: Feature where
  "dallasFeature =
     \<lparr>properties = Some [(''GEOID'', ''48113''), (''NAME'', ''Dallas''), (''STATE'', ''48'')],
      geometry = Some (Coordinates (Nested [Nested [Position [- 97, 32], Position [- 96, 33]]]))\<rparr>"

definition sampleGeojson :: "Feature list" where
  "sampleGeojson = [harrisFeature, browardFeature, dallasFeature]"

section \<open>Theme-driven style swap (components/map/MapView.tsx)\<close>

datatype ResolvedTheme = Light | Dark

datatype GeojsonStatus = Loading | Loaded | Failed

definition LIGHT_STYLE :: string where
  "LIGHT_STYLE = ''https://basemaps.cartocdn.com/gl/positron-gl-style/style.json''"

definition DARK_STYLE :: string where
  "DARK_STYLE = ''https://basemaps.cartocdn.com/gl/dark-matter-gl-style/style.json''"

text \<open>
  The mounted component with its map instance. Time is counted in milliseconds. \<open>settled\<close>
  is the variable of the style-switch effect's closure, \<open>styleLoadListener\<close> tells whether
  the \<^verbatim>\<open>once('style.load', onStyleLoad)\<close> listener is registered, \<open>timeoutId\<close> is the time at
  which the pending fallback timer fires, \<open>styleRequests\<close> are the arguments of the calls of
  \<^verbatim>\<open>map.setStyle\<close>, and \<open>readyCommits\<close> are the times of the calls of \<^verbatim>\<open>setMapReady(true)\<close>
  made by the handlers of the current swap. The mount effect's \<^verbatim>\<open>onLoad\<close> listener stays
  registered, with \<^verbatim>\<open>cancelled = false\<close>, until the component is unmounted.
\<close>

record MapView =
  now :: nat
  mapReady :: bool
  geojsonStatus :: GeojsonStatus
  styleRequests :: "string list"
  settled :: bool
  styleLoadListener :: bool
  timeoutId :: "nat option"
  readyCommits :: "nat list"

definition upperToLower :: "(char \<times> char) list" where
  "upperToLower = zip ''ABCDEFGHIJKLMNOPQRSTUVWXYZ'' ''abcdefghijklmnopqrstuvwxyz''"

definition toLowerCase :: "string \<Rightarrow> string" where
  "toLowerCase s = map (\<lambda>c. case map_of upperToLower c of None \<Rightarrow> c | Some l \<Rightarrow> l) s"

fun includesStr :: "string \<Rightarrow> string \<Rightarrow> bool" where
  "includesStr [] sub = (sub = [])"
| "includesStr (c # cs) sub = (take (length sub) (c # cs) = sub \<or> includesStr cs sub)"

text \<open>
  \<^verbatim>\<open>(currentStyle?.name ?? '').toLowerCase().includes('dark')\<close>, where \<open>currentName\<close> is
  the name of the style the engine reports, if any.
\<close>

definition isDark :: "string option \<Rightarrow> bool" where
  "isDark currentName =
     includesStr (toLowerCase (case currentName of None \<Rightarrow> [] | Some n \<Rightarrow> n)) ''dark''"

text \<open>
  The body of the style-switch effect, run at a change of theme with the map present: no
  swap when the style already matches; otherwise the swap begins, with the listener
  registered and the fallback timer set 5000 ms ahead.
\<close>

definition styleSwitchEffect :: "ResolvedTheme \<Rightarrow> string option \<Rightarrow> MapView \<Rightarrow> MapView" where
  "styleSwitchEffect resolved currentName v =
     (let newStyle = (if resolved = Dark then DARK_STYLE else LIGHT_STYLE);
          wantDark = (resolved = Dark)
      in if isDark currentName = wantDark then v
         else v\<lparr>mapReady := False, geojsonStatus := Loading,
                styleRequests := styleRequests v @ [newStyle],
                settled := False, styleLoadListener := True,
                timeoutId := Some (now v + 5000), readyCommits := []\<rparr>)"

text \<open>\<^verbatim>\<open>onStyleLoad\<close>, and the callback of the timer (run at the time \<open>t\<close> the timer fires).\<close>

definition onStyleLoad :: "MapView \<Rightarrow> MapView" where
  "onStyleLoad v =
     (if settled v then v
      else v\<lparr>settled := True, mapReady := True, readyCommits := readyCommits v @ [now v]\<rparr>)"

definition onTimeout :: "nat \<Rightarrow> MapView \<Rightarrow> MapView" where
  "onTimeout t v =
     (if \<not> settled v
      then v\<lparr>settled := True, mapReady := True, readyCommits := readyCommits v @ [t]\<rparr>
      else v)"

text \<open>
  The mount effect's \<^verbatim>\<open>onLoad\<close>, and the cleanup the style-switch effect returns when it has
  begun a swap.
\<close>

definition onLoad :: "MapView \<Rightarrow> MapView" where
  "onLoad v = v\<lparr>mapReady := True\<rparr>"

definition cleanup :: "MapView \<Rightarrow> MapView" where
  "cleanup v = v\<lparr>styleLoadListener := False, timeoutId := None\<rparr>"

text \<open>
  What can happen to the mounted component: the engine emits \<^verbatim>\<open>load\<close>; the engine emits
  \<^verbatim>\<open>style.load\<close> (a listener registered with \<^verbatim>\<open>once\<close> is removed when it is called); time
  passes (a pending timer fires when its time is reached); or the theme changes to one that
  resolves to \<open>resolved\<close> while the engine reports a style of name \<open>currentName\<close>. At a change
  of theme the cleanup of the effect's previous run is called and then the effect runs again.
  A run that returned early has no cleanup; then no listener and no timer of the effect is
  registered (those of an earlier run were removed before that run), and \<open>cleanup\<close> changes
  nothing.
\<close>

datatype MapEvent = EngineLoad | StyleLoad | Elapse nat | ThemeChange ResolvedTheme "string option"

fun mapStep :: "MapView \<Rightarrow> MapEvent \<Rightarrow> MapView" where
  "mapStep v EngineLoad = onLoad v"
| "mapStep v StyleLoad =
     (if styleLoadListener v then onStyleLoad (v\<lparr>styleLoadListener := False\<rparr>) else v)"
| "mapStep v (Elapse d) =
     (case timeoutId v of
        None \<Rightarrow> v\<lparr>now := now v + d\<rparr>
      | Some t \<Rightarrow>
          if t \<le> now v + d then (onTimeout t (v\<lparr>timeoutId := None\<rparr>))\<lparr>now := now v + d\<rparr>
          else v\<lparr>now := now v + d\<rparr>)"
| "mapStep v (ThemeChange resolved currentName) = styleSwitchEffect resolved currentName (cleanup v)"

definition mapRun :: "MapView \<Rightarrow> MapEvent list \<Rightarrow> MapView" where
  "mapRun v es = foldl mapStep v es"

text \<open>The events of the engine's style loading and of the clock.\<close>

fun swapSignal :: "MapEvent \<Rightarrow> bool" where
  "swapSignal StyleLoad = True"
| "swapSignal (Elapse d) = True"
| "swapSignal e = False"

text \<open>The time of the first \<^verbatim>\<open>style.load\<close> signal in a run that starts at time \<open>t\<close>.\<close>

fun firstSignal :: "nat \<Rightarrow> MapEvent list \<Rightarrow> nat option" where
  "firstSignal t [] = None"
| "firstSignal t (StyleLoad # es) = Some t"
| "firstSignal t (Elapse d # es) = firstSignal (t + d) es"
| "firstSignal t (e # es) = firstSignal t es"

text \<open>The time that passes in a run.\<close>

definition elapsed :: "MapEvent list \<Rightarrow> nat" where
  "elapsed es = sum_list (map (\<lambda>e. case e of Elapse d \<Rightarrow> d | other \<Rightarrow> 0) es)"

text \<open>
  The component after the map has loaded with the light style, at time 1000: the \<^verbatim>\<open>load\<close>
  event has made the map ready.
\<close>

definition readyView :: MapView where
  "readyView = \<lparr>now = 1000, mapReady = True, geojsonStatus = Loaded, styleRequests = [],
     settled = False, styleLoadListener = False, timeoutId = None, readyCommits = []\<rparr>"

section \<open>Industry data hook (hooks/useIndustryData.ts)\<close>

text \<open>An entry of the catalog (\<open>id\<close> is a constant of HOL, hence the prefix).\<close>

record Industry =
  industry_id :: string
  label :: string
  naicsCodes :: "string list"
  description :: string

text \<open>\<^verbatim>\<open>const ID_FORMAT = /^[a-zA-Z0-9_-]+$/\<close> and \<^verbatim>\<open>ID_FORMAT.test\<close>.\<close>

definition ID_FORMAT :: "char set" where
  "ID_FORMAT = set ''abcdefghijklmnopqrstuvwxyzABCDEFGHIJKLMNOPQRSTUVWXYZ0123456789_-''"

definition ID_FORMAT_test :: "string \<Rightarrow> bool" where
  "ID_FORMAT_test s = (s \<noteq> [] \<and> list_all (\<lambda>c. c \<in> ID_FORMAT) s)"

text \<open>
  A fetch of a score file that has not completed yet: the industry id of its URL, and the
  \<open>cancelled\<close> variable of the effect run that issued it. Cancelling does not abort the
  fetch; it only keeps its result from being committed.
\<close>

record ScoreRequest =
  request_id :: string
  cancelled :: bool

record IndustryData =
  industries :: "Industry list"
  industriesLoading :: bool
  industriesError :: "string option"
  rawScores :: "IndustryScores option"
  scoresLoading :: bool
  scoresError :: "string option"
  scoreCache :: "string \<Rightarrow> IndustryScores option"
  industriesRef :: "Industry list"
  requests :: "ScoreRequest list"

definition initialIndustryData :: IndustryData where
  "initialIndustryData =
     \<lparr>industries = [], industriesLoading = True, industriesError = None, rawScores = None,
      scoresLoading = False, scoresError = None, scoreCache = Map.empty, industriesRef = [],
      requests = []\<rparr>"

text \<open>The catalog fetch completes, with the list or with an error message.\<close>

definition industriesLoaded :: "Industry list \<Rightarrow> IndustryData \<Rightarrow> IndustryData" where
  "industriesLoaded catalog h = h\<lparr>industries := catalog, industriesRef := catalog, industriesLoading := False\<rparr>"

definition industriesFailed :: "string \<Rightarrow> IndustryData \<Rightarrow> IndustryData" where
  "industriesFailed message h = h\<lparr>industriesError := Some message, industriesLoading := False\<rparr>"

text \<open>
  The cleanup of the score effect sets \<open>cancelled\<close> of the run it belongs to; the runs before
  it were cleaned up earlier, so after it every request in flight is cancelled.
\<close>

definition scoresCleanup :: "IndustryData \<Rightarrow> IndustryData" where
  "scoresCleanup h = h\<lparr>requests := map (\<lambda>r. r\<lparr>cancelled := True\<rparr>) (requests h)\<rparr>"

text \<open>The body of the score effect, up to the call of \<^verbatim>\<open>loadScores()\<close>, which issues the fetch.\<close>

definition scoresEffect :: "string option \<Rightarrow> IndustryData \<Rightarrow> IndustryData" where
  "scoresEffect selectedIndustryId h =
     (if falsy selectedIndustryId \<or> industriesLoading h
      then h\<lparr>rawScores := None, scoresError := None, scoresLoading := False\<rparr>
      else if \<not> ID_FORMAT_test (the selectedIndustryId)
      then h\<lparr>scoresError := Some ''Unknown industry ID'', rawScores := None, scoresLoading := False\<rparr>
      else if \<not> list_ex (\<lambda>ind. industry_id ind = the selectedIndustryId) (industriesRef h)
      then h\<lparr>scoresError := Some (''Unknown industry ID: '' @ the selectedIndustryId),
             rawScores := None, scoresLoading := False\<rparr>
      else (case scoreCache h (the selectedIndustryId) of
              Some cached \<Rightarrow> h\<lparr>rawScores := Some cached, scoresError := None, scoresLoading := False\<rparr>
            | None \<Rightarrow>
                h\<lparr>scoresLoading := True, scoresError := None,
                  requests := requests h
                    @ [\<lparr>request_id = the selectedIndustryId, cancelled = False\<rparr>]\<rparr>))"

text \<open>
  A change of \<^verbatim>\<open>selectedIndustryId\<close> (or of \<^verbatim>\<open>industriesLoading\<close>): React runs the cleanup
  of the previous run of the effect and then the effect.
\<close>

definition selectionChanged :: "string option \<Rightarrow> IndustryData \<Rightarrow> IndustryData" where
  "selectionChanged selectedIndustryId h = scoresEffect selectedIndustryId (scoresCleanup h)"

text \<open>The result of a fetch as the \<^verbatim>\<open>try\<close> block sees it: the parsed data, or an error message.\<close>

datatype 'a fetched = Loaded_data 'a | Load_error string

text \<open>The request at position \<open>i\<close> completes; a cancelled one commits nothing.\<close>

definition scoresSettled :: "nat \<Rightarrow> IndustryScores fetched \<Rightarrow> IndustryData \<Rightarrow> IndustryData" where
  "scoresSettled i result h =
     (if i < length (requests h)
      then (let r = requests h ! i;
                h' = h\<lparr>requests := take i (requests h) @ drop (Suc i) (requests h)\<rparr>
            in if cancelled r then h'
               else (case result of
                       Loaded_data scores \<Rightarrow>
                         h'\<lparr>scoreCache := (scoreCache h')(request_id r \<mapsto> scores),
                            rawScores := Some scores, scoresLoading := False\<rparr>
                     | Load_error message \<Rightarrow>
                         h'\<lparr>scoresError := Some message, scoresLoading := False\<rparr>))
      else h)"

text \<open>The number of score fetches in flight for an industry id.\<close>

definition inFlightFor :: "string \<Rightarrow> IndustryData \<Rightarrow> nat" where
  "inFlightFor key h = length (filter (\<lambda>r. request_id r = key) (requests h))"

definition sampleCatalog :: "Industry list" where
  "sampleCatalog =
     [\<lparr>industry_id = ''coffee-shops'', label = ''Coffee Shops'', naicsCodes = [''722515''],
       description = ''Coffee & snack bars''\<rparr>,
      \<lparr>industry_id = ''gyms'', label = ''Gyms & Fitness'', naicsCodes = [''713940''],
       description = ''Fitness centers''\<rparr>]"

definition catalogLoaded :: IndustryData where
  "catalogLoaded = industriesLoaded sampleCatalog initialIndustryData"

section \<open>Demographics hook (hooks/useCountyData.ts)\<close>

text \<open>
  \<^verbatim>\<open>CountyDataState\<close>; the type \<open>'d\<close> stands for \<^verbatim>\<open>AllCountyDemographics\<close>, which the hook
  stores and hands out without looking into it.
\<close>

record 'd CountyDataState =
  data :: "'d option"
  loading :: bool
  error :: "string option"

text \<open>
  The hook instance and its fetches. \<open>hookState\<close> is the React state as the last call of
  \<^verbatim>\<open>setState\<close> left it, \<open>stateRef\<close> is \<^verbatim>\<open>stateRef.current\<close>, which the hook's body assigns at
  each render. A promise made by \<^verbatim>\<open>fetch(...).then(...)\<close> is named by a number; \<open>inFlight\<close>
  are the promises whose fetch has not settled yet, \<open>issued\<close> counts the fetches issued.
\<close>

record 'd CountyData =
  hookState :: "'d CountyDataState"
  stateRef :: "'d CountyDataState"
  fetchedRef :: bool
  promiseRef :: "nat option"
  inFlight :: "nat list"
  issued :: nat

definition initialCountyData :: "'d CountyData" where
  "initialCountyData =
     \<lparr>hookState = \<lparr>data = None, loading = False, error = None\<rparr>,
      stateRef = \<lparr>data = None, loading = False, error = None\<rparr>,
      fetchedRef = False, promiseRef = None, inFlight = [], issued = 0\<rparr>"

text \<open>
  What a call of \<^verbatim>\<open>ensureLoaded\<close> hands back: a value at once (the data, or \<^verbatim>\<open>null\<close>), the
  promise in \<^verbatim>\<open>promiseRef.current\<close> itself, or the outcome of its own \<^verbatim>\<open>try\<close>/\<^verbatim>\<open>catch\<close> around
  the promise it has just made.
\<close>

datatype 'd Returned = Now "'d option" | SharedPromise nat | OwnAttempt nat

text \<open>The synchronous part of \<^verbatim>\<open>ensureLoaded\<close>, up to \<^verbatim>\<open>await promise\<close>.\<close>

definition ensureLoaded :: "'d CountyData \<Rightarrow> 'd Returned \<times> 'd CountyData" where
  "ensureLoaded h =
     (if data (stateRef h) \<noteq> None then (Now (data (stateRef h)), h)
      else (case promiseRef h of
              Some p \<Rightarrow> (SharedPromise p, h)
            | None \<Rightarrow>
                if fetchedRef h \<and> \<not> falsy (error (stateRef h)) then (Now None, h)
                else (OwnAttempt (issued h),
                      h\<lparr>fetchedRef := True,
                        hookState := (hookState h)\<lparr>loading := True, error := None\<rparr>,
                        inFlight := inFlight h @ [issued h],
                        issued := Suc (issued h),
                        promiseRef := Some (issued h)\<rparr>)))"

text \<open>
  How the fetch ends, and what the promise \<^verbatim>\<open>fetch(...).then(...)\<close> settles to. A rejection
  carries an \<^verbatim>\<open>Error\<close> with its message, or some other value.
\<close>

datatype rejection = ErrorWith string | NotAnError

datatype 'd jsonResult = Parsed 'd | ParseFailure rejection

datatype 'd fetchResult = Rejects rejection | Responds bool string "'d jsonResult"

datatype 'd settlement = Fulfilled 'd | Rejected rejection

fun thenHandler :: "'d fetchResult \<Rightarrow> 'd settlement" where
  "thenHandler (Rejects r) = Rejected r"
| "thenHandler (Responds ok status body) =
     (if \<not> ok then Rejected (ErrorWith (''Failed to load demographics: '' @ status))
      else (case body of Parsed d \<Rightarrow> Fulfilled d | ParseFailure r \<Rightarrow> Rejected r))"

text \<open>\<^verbatim>\<open>err instanceof Error ? err.message : 'Failed to load demographics'\<close>\<close>

fun errorMessage :: "rejection \<Rightarrow> string" where
  "errorMessage (ErrorWith m) = m"
| "errorMessage NotAnError = ''Failed to load demographics''"

text \<open>
  The fetch of promise \<open>p\<close> settles and the rest of the call that made it runs (the
  \<^verbatim>\<open>try\<close>/\<^verbatim>\<open>catch\<close> after \<^verbatim>\<open>await promise\<close>).
\<close>

definition fetchSettled :: "nat \<Rightarrow> 'd fetchResult \<Rightarrow> 'd CountyData \<Rightarrow> 'd CountyData" where
  "fetchSettled p result h =
     (if p \<notin> set (inFlight h) then h
      else (case thenHandler result of
              Fulfilled d \<Rightarrow>
                h\<lparr>inFlight := removeAll p (inFlight h),
                  hookState := \<lparr>data = Some d, loading = False, error = None\<rparr>\<rparr>
            | Rejected r \<Rightarrow>
                h\<lparr>inFlight := removeAll p (inFlight h),
                  hookState := \<lparr>data = None, loading = False, error = Some (errorMessage r)\<rparr>,
                  promiseRef := None\<rparr>))"

text \<open>What the caller's promise settles to, given what the fetch promise settled to.\<close>

datatype 'd resolution = ResolvesTo "'d option" | RejectsWith rejection

fun callerGets :: "'d Returned \<Rightarrow> 'd settlement \<Rightarrow> 'd resolution" where
  "callerGets (Now v) s = ResolvesTo v"
| "callerGets (SharedPromise p) (Fulfilled d) = ResolvesTo (Some d)"
| "callerGets (SharedPromise p) (Rejected r) = RejectsWith r"
| "callerGets (OwnAttempt p) (Fulfilled d) = ResolvesTo (Some d)"
| "callerGets (OwnAttempt p) (Rejected r) = ResolvesTo None"

text \<open>A render of the component runs the hook's body: \<^verbatim>\<open>stateRef.current = state\<close>.\<close>

definition render :: "'d CountyData \<Rightarrow> 'd CountyData" where
  "render h = h\<lparr>stateRef := hookState h\<rparr>"

definition retry :: "'d CountyData \<Rightarrow> 'd CountyData" where
  "retry h = h\<lparr>fetchedRef := False, promiseRef := None,
               hookState := \<lparr>data = None, loading = False, error = None\<rparr>\<rparr>"

text \<open>Runs of the hook: calls of its two functions, settling fetches, and renders.\<close>

datatype 'd HookEvent = CallEnsureLoaded | FetchSettles nat "'d fetchResult" | Render | CallRetry

fun hookStep :: "'d CountyData \<Rightarrow> 'd HookEvent \<Rightarrow> 'd CountyData" where
  "hookStep h CallEnsureLoaded = snd (ensureLoaded h)"
| "hookStep h (FetchSettles p result) = fetchSettled p result h"
| "hookStep h Render = render h"
| "hookStep h CallRetry = retry h"

definition hookRun :: "'d HookEvent list \<Rightarrow> 'd CountyData" where
  "hookRun es = foldl hookStep initialCountyData es"

text \<open>A failed response (status 500) and a successful one.\<close>

definition serverError :: "string fetchResult" where
  "serverError = Responds False ''500'' (ParseFailure NotAnError)"

definition success :: "string fetchResult" where
  "success = Responds True ''200'' (Parsed ''demographics'')"

text \<open>
  The runs in which \<^verbatim>\<open>retry\<close> is only called while no fetch is in flight (the application
  offers it when a load has failed), starting from the hook \<open>h\<close>.
\<close>

fun retriesWhenIdle :: "'d CountyData \<Rightarrow> 'd HookEvent list \<Rightarrow> bool" where
  "retriesWhenIdle h [] = True"
| "retriesWhenIdle h (e # es) =
     ((case e of CallRetry \<Rightarrow> inFlight h = [] | other \<Rightarrow> True) \<and> retriesWhenIdle (hookStep h e) es)"

text \<open>
  The calls of \<^verbatim>\<open>ensureLoaded\<close> in a run: the fetches in flight when the call is made, what
  the call hands back, and the fetches in flight after its synchronous part.
\<close>

record 'd Call =
  pendingBefore :: "nat list"
  returned :: "'d Returned"
  pendingAfter :: "nat list"

fun callLog :: "'d CountyData \<Rightarrow> 'd HookEvent list \<Rightarrow> 'd Call list" where
  "callLog h [] = []"
| "callLog h (e # es) =
     (case e of
        CallEnsureLoaded \<Rightarrow>
          [\<lparr>pendingBefore = inFlight h, returned = fst (ensureLoaded h),
            pendingAfter = inFlight (snd (ensureLoaded h))\<rparr>]
      | other \<Rightarrow> [])
     @ callLog (hookStep h e) es"

text \<open>
  The invariant of those runs: at most one fetch is in flight, it is the one
  \<^verbatim>\<open>promiseRef.current\<close> holds, and no data has been stored while it is in flight; with no
  fetch in flight, stored data comes with a promise in \<^verbatim>\<open>promiseRef.current\<close>.
\<close>

definition singleFlight :: "'d CountyData \<Rightarrow> bool" where
  "singleFlight h =
     (case inFlight h of
        [] \<Rightarrow> data (hookState h) = None \<or> promiseRef h \<noteq> None
      | [p] \<Rightarrow> promiseRef h = Some p \<and> data (hookState h) = None \<and> data (stateRef h) = None
      | p # q # ps \<Rightarrow> False)"

text \<open>
  A run with a failed load, a retry after the failure has been rendered, and two calls of
  \<^verbatim>\<open>ensureLoaded\<close> after it.
\<close>

definition retryAfterFailure :: "string HookEvent list" where
  "retryAfterFailure =
     [CallEnsureLoaded, Render, FetchSettles 0 serverError, Render, CallRetry, Render,
      CallEnsureLoaded, CallEnsureLoaded]"

section \<open>Properties of the top-counties list\<close>

lemma Object_entries_tied: "Object_entries tiedScores = [(''48201'', harris), (''06037'', losAngeles)]"
  by (simp add: Object_entries_def tiedScores_def isArrayIndex_def digits_def)

text \<open>
  C2 (as stated, refuted). The claim orders entries of equal score by fips ascending. For the
  two counties 06037 and 48201 with the same score 50 the list is 48201, 06037: the key
  \<^verbatim>\<open>48201\<close> is an array index and is enumerated before the key \<^verbatim>\<open>06037\<close>, which is not
  (leading zero), and the stable sort keeps that order.
\<close>

theorem topCounties_ties_counterexample:
  "topCounties (Some tiedScores) = [harris, losAngeles]
   \<and> \<not> tiesByFipsAscending (topCounties (Some tiedScores))"
  by (simp add: topCounties_def Object_values_def Object_entries_tied tiesByFipsAscending_def
      harris_def losAngeles_def)

text \<open>
  C2 (amended). The top-counties list is the first 10 entries of the score-descending
  arrangement of the mapping's values in which entries of equal score keep the mapping's
  enumeration order (array-index keys ascending, then the other keys in insertion order).
\<close>

theorem topCounties_sorted_stable:
  "\<exists>full. topCounties (Some s) = take 10 full
      \<and> mset full = mset (Object_values s)
      \<and> sorted_wrt (\<lambda>a b. score a \<ge> score b) full
      \<and> (\<forall>k. filter (\<lambda>e. score e = k) full = filter (\<lambda>e. score e = k) (Object_values s))"
proof -
  let ?full = "sort_key (\<lambda>e. - score e) (Object_values s)"
  have "sorted (map (\<lambda>e. - score e) ?full)"
    by (rule sorted_sort_key)
  then have srt: "sorted_wrt (\<lambda>a b. score a \<ge> score b) ?full"
    by (simp add: sorted_map sorted_wrt_iff_nth_less)
  have stab: "filter (\<lambda>e. score e = k) ?full = filter (\<lambda>e. score e = k) (Object_values s)" for k
    using sort_key_stable [of "\<lambda>e. - score e" "- k" "Object_values s"] by simp
  have "topCounties (Some s) = take 10 ?full"
    by (simp add: topCounties_def)
  with srt stab show ?thesis
    by (intro exI [of _ ?full]) simp
qed

section \<open>Properties of the fill-colour expression\<close>

subsection \<open>Rounded arithmetic at the values used below\<close>

lemma roundDouble_0: "roundDouble 0 = Finite 0"
  by (simp add: roundDouble_def)

lemma roundDouble_1: "roundDouble 1 = Finite 1"
  by code_simp

lemma roundDouble_3: "roundDouble 3 = Finite 3"
  by code_simp

lemma roundDouble_11: "roundDouble 11 = Finite 11"
  by code_simp

lemma roundDouble_100: "roundDouble 100 = Finite 100"
  by code_simp

lemma roundDouble_201: "roundDouble 201 = Finite 201"
  by code_simp

text \<open>\<open>2^53 + 1\<close> is not a double: it lies half way between \<open>2^53\<close> and \<open>2^53 + 2\<close>.\<close>

lemma roundDouble_absorbs_1: "roundDouble 9007199254740993 = Finite 9007199254740992"
  by code_simp

text \<open>\<^verbatim>\<open>1 / 3 * 100\<close> is \<^verbatim>\<open>33.33333333333333\<close>, below \<open>100 / 3\<close>.\<close>

lemma third_of_100:
  "num_mul (num_div (Finite 1) (Finite 3)) (Finite 100) = Finite (4691249611844266 / 140737488355328)"
  by code_simp

subsection \<open>The range and the table\<close>

lemma minMaxLoop_fold:
  "fold minMaxStep (map Finite vs) (Finite a, Finite b) = (Finite (fold min vs a), Finite (fold max vs b))"
  by (induction vs arbitrary: a b) (auto simp: minMaxStep_def num_gt_def min_def max_def)

lemma minMaxLoop_Finite:
  "vs \<noteq> [] \<Longrightarrow> minMaxLoop (map Finite vs) = (Finite (Min (set vs)), Finite (Max (set vs)))"
proof (cases vs)
  case Nil then show "vs \<noteq> [] \<Longrightarrow> ?thesis" by simp
next
  case (Cons v ws)
  have "minMaxLoop (map Finite vs) = fold minMaxStep (map Finite ws) (Finite v, Finite v)"
    by (simp add: Cons minMaxLoop_def minMaxStep_def num_gt_def)
  also have "\<dots> = (Finite (fold min ws v), Finite (fold max ws v))"
    by (rule minMaxLoop_fold)
  also have "fold min ws v = Min (set vs)"
    using Min.set_eq_fold [of v ws] by (simp add: Cons)
  also have "fold max ws v = Max (set vs)"
    using Max.set_eq_fold [of v ws] by (simp add: Cons)
  finally show ?thesis .
qed

lemma set_Object_entries: "set (Object_entries obj) = set obj"
  by (auto simp: Object_entries_def)

lemma distinct_Object_entries:
  "distinct (map fst obj) \<Longrightarrow> distinct (map fst (Object_entries obj))"
  by (auto simp: Object_entries_def distinct_map intro: inj_on_subset)

lemma matchBranches_pairs:
  "distinct (map fst kvs) \<Longrightarrow>
   matchBranches (concat (map (\<lambda>kv. [Str (fst kv), f kv]) kvs) @ [d]) key =
     (case map_of kvs key of None \<Rightarrow> Some d | Some v \<Rightarrow> Some (f (key, v)))"
  by (induction kvs) auto

lemma metricRange_nonempty:
  assumes "scores \<noteq> []" "metric \<noteq> Metric_score"
  shows "metricRange scores metric = (Finite (metricMin scores metric), upperBound scores metric)"
proof -
  let ?vs = "map (\<lambda>kv. metricValue (snd kv) metric) (Object_entries scores)"
  have ne: "?vs \<noteq> []"
    using assms(1) set_Object_entries [of scores] by (cases "Object_entries scores") auto
  have "minMaxLoop (map Finite ?vs) = (Finite (Min (set ?vs)), Finite (Max (set ?vs)))"
    using ne by (rule minMaxLoop_Finite)
  then have "minMaxLoop (map (\<lambda>kv. Finite (metricValue (snd kv) metric)) (Object_entries scores))
      = (Finite (metricMin scores metric), Finite (metricMax scores metric))"
    by (simp add: set_Object_entries metricMin_def metricMax_def comp_def)
  then show ?thesis
    using assms(2) by (simp add: metricRange_def Let_def num_eq_def upperBound_def)
qed

lemma normalised_tableValue:
  assumes "scores \<noteq> []"
  shows "normalised metric (Finite (metricValue e metric)) (fst (metricRange scores metric))
           (snd (metricRange scores metric)) = tableValue scores metric e"
proof (cases "metric = Metric_score")
  case True
  then show ?thesis by (simp add: normalised_def tableValue_def)
next
  case False
  then show ?thesis
    by (simp add: metricRange_nonempty [OF assms False] normalised_def tableValue_def)
qed

lemma fipsPairs_tableValue:
  assumes "scores \<noteq> []"
  shows "fipsPairs scores metric
     = concat (map (\<lambda>kv. [Str (fst kv), Num (tableValue scores metric (snd kv))]) (Object_entries scores))"
  by (simp add: fipsPairs_def Let_def normalised_tableValue [OF assms])

lemma evalMatch_table:
  assumes "distinct (map fst scores)" "scores \<noteq> []"
  shows "evalMatch (matchTable (buildFillColorExpression scores metric)) props =
     (case map_of props ''GEOID'' of
        None \<Rightarrow> Some (Num (Finite 0))
      | Some key \<Rightarrow>
          (case map_of scores key of
             None \<Rightarrow> Some (Num (Finite 0))
           | Some e \<Rightarrow> Some (Num (tableValue scores metric e))))"
proof -
  let ?es = "Object_entries scores"
  let ?f = "\<lambda>kv. Num (tableValue scores metric (snd kv))"
  let ?branches = "concat (map (\<lambda>kv. [Str (fst kv), ?f kv]) ?es) @ [Num (Finite 0)]"
  have d: "distinct (map fst ?es)"
    using assms(1) by (rule distinct_Object_entries)
  have m: "map_of ?es key = map_of scores key" for key
    using map_of_inject_set [OF d assms(1)] by (simp add: set_Object_entries)
  have b: "matchBranches ?branches key =
      (case map_of scores key of None \<Rightarrow> Some (Num (Finite 0)) | Some e \<Rightarrow> Some (Num (tableValue scores metric e)))"
    for key
    using matchBranches_pairs [OF d, of ?f "Num (Finite 0)" key] by (simp add: m split: option.split)
  have "evalMatch (matchTable (buildFillColorExpression scores metric)) props =
      (case map_of props ''GEOID'' of None \<Rightarrow> Some (Num (Finite 0))
       | Some key \<Rightarrow> matchBranches ?branches key)"
    by (simp add: buildFillColorExpression_def fipsPairs_tableValue [OF assms(2)]
        split: option.split)
  then show ?thesis
    by (simp add: b split: option.split)
qed

lemma Object_entries_singleCounty: "Object_entries singleCounty = singleCounty"
  by (simp add: Object_entries_def singleCounty_def isArrayIndex_def digits_def)

lemma Object_entries_twoCounties: "Object_entries twoCounties = twoCounties"
  by (simp add: Object_entries_def twoCounties_def isArrayIndex_def digits_def arrayIndex_def)

lemma Object_entries_hugeCounties: "Object_entries hugeCounties = hugeCounties"
  by (simp add: Object_entries_def hugeCounties_def isArrayIndex_def digits_def arrayIndex_def)

text \<open>
  C4 (as stated, refuted). The claim takes \<open>min\<close> and \<open>max\<close> over all entries' values. For a
  single county with establishment count 10 both are 10, and the claim's formula is
  \<^verbatim>\<open>(10 - 10) / (10 - 10) * 100\<close>, which is \<^verbatim>\<open>NaN\<close>; the table holds 0 for a feature whose
  \<^verbatim>\<open>GEOID\<close> is that county's key, because the code has moved \<open>max\<close> to \<open>min + 1\<close>.
\<close>

theorem normalised_range_counterexample:
  "evalMatch (matchTable (buildFillColorExpression singleCounty Metric_establishmentCount))
       [(''GEOID'', ''48001''), (''NAME'', ''Anderson'')]
     = Some (Num (Finite 0))
   \<and> claimedValue singleCounty Metric_establishmentCount (county ''48001'' 75 10 500) = NaN"
proof -
  have "metricRange singleCounty Metric_establishmentCount = (Finite 10, Finite 11)"
    unfolding metricRange_def Object_entries_singleCounty
    by (simp add: singleCounty_def county_def minMaxLoop_def minMaxStep_def num_gt_def
        num_eq_def Let_def roundDouble_11)
  then have "fipsPairs singleCounty Metric_establishmentCount = [Str ''48001'', Num (Finite 0)]"
    unfolding fipsPairs_def Object_entries_singleCounty
    by (simp add: singleCounty_def county_def normalised_def num_sub_def roundDouble_0 roundDouble_1)
  moreover have "claimedValue singleCounty Metric_establishmentCount (county ''48001'' 75 10 500) = NaN"
    by (simp add: claimedValue_def metricMin_def metricMax_def singleCounty_def county_def
        num_sub_def roundDouble_0)
  ultimately show ?thesis
    by (simp add: buildFillColorExpression_def)
qed

text \<open>
  C4 (amended). For a non-empty scores mapping (with the pairwise distinct keys of an object)
  and any metric, the expression is a linear interpolation over exactly the three stops
  0, 50, 100 with the colours \<^verbatim>\<open>#e5e7eb\<close>, \<^verbatim>\<open>#a5b4fc\<close>, \<^verbatim>\<open>#3730a3\<close> of a table that is
  looked up with the feature's \<^verbatim>\<open>GEOID\<close> property. A feature whose \<^verbatim>\<open>GEOID\<close> is the key of an
  entry gets the raw score when the metric is the score, and otherwise
  \<open>(raw - min) / (max' - min) * 100\<close> evaluated in the arithmetic of doubles (each operation
  rounded, \<^verbatim>\<open>NaN\<close> for \<^verbatim>\<open>0 / 0\<close>), where \<open>min\<close> and \<open>max\<close> range over all entries' values
  and \<open>max'\<close> is \<open>max\<close>, or the double \<open>min + 1\<close> when \<open>max = min\<close>. A feature whose
  \<^verbatim>\<open>GEOID\<close> is no key of the mapping, or that has no \<^verbatim>\<open>GEOID\<close>, gets the fallback 0.
\<close>

theorem buildFillColorExpression_table:
  assumes "distinct (map fst scores)" and "scores \<noteq> []"
  shows "buildFillColorExpression scores metric =
           Arr [Str ''interpolate'', Arr [Str ''linear''],
                matchTable (buildFillColorExpression scores metric),
                Num (Finite 0), Str ''#e5e7eb'', Num (Finite 50), Str ''#a5b4fc'',
                Num (Finite 100), Str ''#3730a3'']
       \<and> (\<forall>kv \<in> set scores. \<forall>props. map_of props ''GEOID'' = Some (fst kv) \<longrightarrow>
             evalMatch (matchTable (buildFillColorExpression scores metric)) props
               = Some (Num (tableValue scores metric (snd kv))))
       \<and> (\<forall>props. (\<forall>key. map_of props ''GEOID'' = Some key \<longrightarrow> key \<notin> fst ` set scores) \<longrightarrow>
             evalMatch (matchTable (buildFillColorExpression scores metric)) props
               = Some (Num (Finite 0)))"
proof (intro conjI ballI allI impI)
  show "buildFillColorExpression scores metric =
           Arr [Str ''interpolate'', Arr [Str ''linear''],
                matchTable (buildFillColorExpression scores metric),
                Num (Finite 0), Str ''#e5e7eb'', Num (Finite 50), Str ''#a5b4fc'',
                Num (Finite 100), Str ''#3730a3'']"
    by (simp add: buildFillColorExpression_def choroplethScale_def)
next
  fix kv props
  assume "kv \<in> set scores" and g: "map_of props ''GEOID'' = Some (fst kv)"
  then have "map_of scores (fst kv) = Some (snd kv)"
    using assms(1) map_of_is_SomeI [of scores "fst kv" "snd kv"] by simp
  then show "evalMatch (matchTable (buildFillColorExpression scores metric)) props
               = Some (Num (tableValue scores metric (snd kv)))"
    by (simp add: evalMatch_table [OF assms] g)
next
  fix props
  assume a: "\<forall>key. map_of props ''GEOID'' = Some key \<longrightarrow> key \<notin> fst ` set scores"
  show "evalMatch (matchTable (buildFillColorExpression scores metric)) props
               = Some (Num (Finite 0))"
  proof (cases "map_of props ''GEOID''")
    case None
    then show ?thesis by (simp add: evalMatch_table [OF assms])
  next
    case (Some key)
    then have "map_of scores key = None"
      using a by (simp add: map_of_eq_None_iff)
    then show ?thesis by (simp add: evalMatch_table [OF assms] Some)
  qed
qed

lemma metricMin_two: "metricMin twoCounties Metric_establishmentCount = 10"
  by (simp add: metricMin_def twoCounties_def county_def)

lemma metricMax_two: "metricMax twoCounties Metric_establishmentCount = 110"
  by (simp add: metricMax_def twoCounties_def county_def)

text \<open>
  The scenario of the specification: establishment counts 10 and 110 normalise to 0 and 100
  for the features of the two counties, and the features of an unknown county and of no
  county get 0.
\<close>

theorem buildFillColorExpression_table_witness:
  "evalMatch (matchTable (buildFillColorExpression twoCounties Metric_establishmentCount))
       [(''GEOID'', ''48001''), (''NAME'', ''Anderson'')]
     = Some (Num (Finite 0))
   \<and> evalMatch (matchTable (buildFillColorExpression twoCounties Metric_establishmentCount))
       [(''NAME'', ''Andrews''), (''GEOID'', ''48002'')]
     = Some (Num (Finite 100))
   \<and> evalMatch (matchTable (buildFillColorExpression twoCounties Metric_establishmentCount))
       [(''GEOID'', ''12011''), (''NAME'', ''48001'')]
     = Some (Num (Finite 0))
   \<and> evalMatch (matchTable (buildFillColorExpression twoCounties Metric_establishmentCount))
       [(''NAME'', ''48001'')]
     = Some (Num (Finite 0))"
proof -
  have d: "distinct (map fst twoCounties)" and n: "twoCounties \<noteq> []"
    by (simp_all add: twoCounties_def)
  have v1: "tableValue twoCounties Metric_establishmentCount (county ''48001'' 50 10 200) = Finite 0"
    by (simp add: tableValue_def upperBound_def metricMin_two metricMax_two num_sub_def
        county_def roundDouble_0 roundDouble_100)
  have v2: "tableValue twoCounties Metric_establishmentCount (county ''48002'' 60 110 200) = Finite 100"
    by (simp add: tableValue_def upperBound_def metricMin_two metricMax_two num_sub_def
        county_def roundDouble_1 roundDouble_100)
  have k: "\<forall>key. map_of [(''GEOID'', ''12011''), (''NAME'', ''48001'')] ''GEOID'' = Some key
             \<longrightarrow> key \<notin> fst ` set twoCounties"
    by (simp add: twoCounties_def)
  have k': "\<forall>key. map_of [(''NAME'', ''48001'')] ''GEOID'' = Some key \<longrightarrow> key \<notin> fst ` set twoCounties"
    by simp
  have t: "\<forall>kv \<in> set twoCounties. \<forall>props. map_of props ''GEOID'' = Some (fst kv) \<longrightarrow>
             evalMatch (matchTable (buildFillColorExpression twoCounties Metric_establishmentCount)) props
               = Some (Num (tableValue twoCounties Metric_establishmentCount (snd kv)))"
    and f: "\<forall>props. (\<forall>key. map_of props ''GEOID'' = Some key \<longrightarrow> key \<notin> fst ` set twoCounties) \<longrightarrow>
             evalMatch (matchTable (buildFillColorExpression twoCounties Metric_establishmentCount)) props
               = Some (Num (Finite 0))"
    using buildFillColorExpression_table [OF d n, of Metric_establishmentCount] by blast+
  have e1: "evalMatch (matchTable (buildFillColorExpression twoCounties Metric_establishmentCount))
       [(''GEOID'', ''48001''), (''NAME'', ''Anderson'')] = Some (Num (Finite 0))"
    using t [rule_format, of "(''48001'', county ''48001'' 50 10 200)"
        "[(''GEOID'', ''48001''), (''NAME'', ''Anderson'')]"] v1
    by (simp add: twoCounties_def)
  have e2: "evalMatch (matchTable (buildFillColorExpression twoCounties Metric_establishmentCount))
       [(''NAME'', ''Andrews''), (''GEOID'', ''48002'')] = Some (Num (Finite 100))"
    using t [rule_format, of "(''48002'', county ''48002'' 60 110 200)"
        "[(''NAME'', ''Andrews''), (''GEOID'', ''48002'')]"] v2
    by (simp add: twoCounties_def)
  have e3: "evalMatch (matchTable (buildFillColorExpression twoCounties Metric_establishmentCount))
       [(''GEOID'', ''12011''), (''NAME'', ''48001'')] = Some (Num (Finite 0))"
    by (rule f [THEN spec, THEN mp, OF k])
  have e4: "evalMatch (matchTable (buildFillColorExpression twoCounties Metric_establishmentCount))
       [(''NAME'', ''48001'')] = Some (Num (Finite 0))"
    by (rule f [THEN spec, THEN mp, OF k'])
  show ?thesis
    using e1 e2 e3 e4 by simp
qed

text \<open>
  The values of the table are doubles: with establishment counts 0, 1 and 3 the second county
  gets \<^verbatim>\<open>1 / 3 * 100 = 33.33333333333333\<close>, which is \<open>4691249611844266 / 2^47\<close> and not
  \<open>100 / 3\<close>.
\<close>

lemma buildFillColorExpression_rounds:
  "evalMatch (matchTable (buildFillColorExpression threeCounties Metric_establishmentCount))
       [(''GEOID'', ''48002'')]
     = Some (Num (Finite (4691249611844266 / 140737488355328)))"
proof -
  have d: "distinct (map fst threeCounties)" and n: "threeCounties \<noteq> []"
    by (simp_all add: threeCounties_def)
  have mn: "metricMin threeCounties Metric_establishmentCount = 0"
    and mx: "metricMax threeCounties Metric_establishmentCount = 3"
    by (simp_all add: metricMin_def metricMax_def threeCounties_def county_def)
  have "tableValue threeCounties Metric_establishmentCount (county ''48002'' 60 1 200)
      = num_mul (num_div (Finite 1) (Finite 3)) (Finite 100)"
    by (simp add: tableValue_def upperBound_def mn mx num_sub_def county_def
        roundDouble_1 roundDouble_3)
  then have v: "tableValue threeCounties Metric_establishmentCount (county ''48002'' 60 1 200)
      = Finite (4691249611844266 / 140737488355328)"
    by (simp only: third_of_100)
  have "map_of threeCounties ''48002'' = Some (county ''48002'' 60 1 200)"
    by (simp add: threeCounties_def)
  then show ?thesis
    by (simp add: evalMatch_table [OF d n] v)
qed

subsection \<open>All entries with the same value\<close>

text \<open>
  When every entry carries the value \<open>v\<close>, the loop ends with \<open>min = max = v\<close> and the
  upper bound becomes the double \<open>v + 1\<close>. If that double differs from \<open>v\<close> by a non-zero
  number, every entry is paired with 0.
\<close>

lemma uniform_range:
  assumes "scores \<noteq> []" and "metric \<noteq> Metric_score"
    and "\<forall>kv \<in> set scores. metricValue (snd kv) metric = v"
  shows "metricRange scores metric = (Finite v, num_add (Finite v) (Finite 1))"
proof -
  have img: "(\<lambda>kv. metricValue (snd kv) metric) ` set scores = {v}"
    using assms(1,3) by (cases scores) auto
  have mn: "metricMin scores metric = v" and mx: "metricMax scores metric = v"
    by (simp_all add: metricMin_def metricMax_def img)
  show ?thesis
    by (simp add: metricRange_nonempty [OF assms(1,2)] mn upperBound_def mx)
qed

lemma zero_over_divisor:
  assumes "d \<noteq> NaN" and "d \<noteq> Finite 0"
  shows "num_mul (num_div (Finite 0) d) (Finite 100) = Finite 0"
  using assms by (cases d) (simp_all add: roundDouble_0)

lemma uniform_zero:
  assumes "scores \<noteq> []" and "metric \<noteq> Metric_score"
    and "\<forall>kv \<in> set scores. metricValue (snd kv) metric = v"
    and "num_sub (num_add (Finite v) (Finite 1)) (Finite v) \<noteq> NaN"
    and "num_sub (num_add (Finite v) (Finite 1)) (Finite v) \<noteq> Finite 0"
  shows "fipsPairs scores metric
            = concat (map (\<lambda>kv. [Str (fst kv), Num (Finite 0)]) (Object_entries scores))"
proof -
  have r: "metricRange scores metric = (Finite v, num_add (Finite v) (Finite 1))"
    using assms(1-3) by (rule uniform_range)
  have z: "normalised metric (Finite (metricValue (snd kv) metric)) (Finite v)
      (num_add (Finite v) (Finite 1)) = Finite 0"
    if "kv \<in> set (Object_entries scores)" for kv
  proof -
    have "metricValue (snd kv) metric = v"
      using that assms(3) by (simp add: set_Object_entries)
    moreover have "num_sub (Finite v) (Finite v) = Finite 0"
      by (simp add: num_sub_def roundDouble_0)
    ultimately show ?thesis
      using assms(2) zero_over_divisor [OF assms(4,5)] by (simp add: normalised_def)
  qed
  show ?thesis
    unfolding fipsPairs_def Let_def r fst_conv snd_conv
    by (rule arg_cong [where f = concat], rule map_cong) (simp_all add: z del: num_add.simps)
qed

text \<open>The unit test's case: two counties with the same population per business, 200.\<close>

lemma uniform_200:
  "fipsPairs twoCounties Metric_populationPerBiz
     = [Str ''48001'', Num (Finite 0), Str ''48002'', Num (Finite 0)]
   \<and> metricRange twoCounties Metric_populationPerBiz = (Finite 200, Finite 201)"
proof -
  have a: "twoCounties \<noteq> []" by (simp add: twoCounties_def)
  have b: "Metric_populationPerBiz \<noteq> Metric_score" by simp
  have c: "\<forall>kv \<in> set twoCounties. metricValue (snd kv) Metric_populationPerBiz = 200"
    by (simp add: twoCounties_def county_def)
  have s: "num_sub (num_add (Finite 200) (Finite 1)) (Finite 200) = Finite 1"
    by (simp add: num_sub_def roundDouble_201 roundDouble_1)
  have "fipsPairs twoCounties Metric_populationPerBiz
     = concat (map (\<lambda>kv. [Str (fst kv), Num (Finite 0)]) (Object_entries twoCounties))"
    using a b c by (rule uniform_zero) (simp_all only: s, simp_all)
  moreover have "metricRange twoCounties Metric_populationPerBiz = (Finite 200, Finite 201)"
    using uniform_range [OF a b c] by (simp add: roundDouble_201)
  ultimately show ?thesis
    by (simp add: Object_entries_twoCounties) (simp add: twoCounties_def)
qed

text \<open>
  C3 (the code departs from the claim). Two counties that both have the population per
  business \<open>2^53 = 9007199254740992\<close>: the loop ends with \<open>min = max = 2^53\<close>, and
  \<^verbatim>\<open>max = min + 1\<close> leaves \<open>max\<close> at \<open>2^53\<close>, since \<open>2^53 + 1\<close> rounds to \<open>2^53\<close>. The divisor
  \<^verbatim>\<open>max - min\<close> is 0, each entry's \<^verbatim>\<open>(raw - min) / (max - min)\<close> is \<^verbatim>\<open>0 / 0\<close>, and the
  expression pairs both counties with \<^verbatim>\<open>NaN\<close>, not with 0.
\<close>

theorem buildFillColorExpression_uniform_NaN:
  "buildFillColorExpression hugeCounties Metric_populationPerBiz =
     Arr [Str ''interpolate'', Arr [Str ''linear''],
          Arr [Str ''match'', Arr [Str ''get'', Str ''GEOID''],
               Str ''48001'', Num NaN, Str ''48002'', Num NaN, Num (Finite 0)],
          Num (Finite 0), Str ''#e5e7eb'', Num (Finite 50), Str ''#a5b4fc'',
          Num (Finite 100), Str ''#3730a3'']
   \<and> metricRange hugeCounties Metric_populationPerBiz
       = (Finite 9007199254740992, Finite 9007199254740992)
   \<and> num_sub (snd (metricRange hugeCounties Metric_populationPerBiz))
        (fst (metricRange hugeCounties Metric_populationPerBiz)) = Finite 0"
proof -
  have a: "hugeCounties \<noteq> []" by (simp add: hugeCounties_def)
  have b: "Metric_populationPerBiz \<noteq> Metric_score" by simp
  have c: "\<forall>kv \<in> set hugeCounties. metricValue (snd kv) Metric_populationPerBiz = 9007199254740992"
    by (simp add: hugeCounties_def county_def)
  have r: "metricRange hugeCounties Metric_populationPerBiz
       = (Finite 9007199254740992, Finite 9007199254740992)"
    using uniform_range [OF a b c] by (simp add: roundDouble_absorbs_1)
  have p: "fipsPairs hugeCounties Metric_populationPerBiz
       = [Str ''48001'', Num NaN, Str ''48002'', Num NaN]"
    unfolding fipsPairs_def Let_def r fst_conv snd_conv Object_entries_hugeCounties
    by (simp add: hugeCounties_def county_def normalised_def num_sub_def roundDouble_0)
  show ?thesis
    by (simp add: buildFillColorExpression_def p r choroplethScale_def num_sub_def roundDouble_0)
qed

section \<open>Properties of the geometry payload validator\<close>

text \<open>
  C5 (as stated, refuted). A collection whose first feature is well formed and whose second
  feature has neither a join key nor a geometry is accepted: only the first feature is
  inspected.
\<close>

theorem validateGeoJSON_later_feature_counterexample:
  "validateGeoJSON (featureCollection [countyFeature ''48201'', featureWithoutJoinKey]) = Inr True
   \<and> \<not> everyFeatureValid (featureCollection [countyFeature ''48201'', featureWithoutJoinKey])"
  by (simp add: validateGeoJSON_def everyFeatureValid_def featureCollection_def countyFeature_def
      featureWithoutJoinKey_def carriesJoinKeyAndGeometry_def)

text \<open>
  C5 (amended). The validator accepts a payload if and only if it is an object whose
  \<^verbatim>\<open>type\<close> is \<^verbatim>\<open>FeatureCollection\<close> and whose \<^verbatim>\<open>features\<close> is an array that is empty or
  whose first element is a non-null value with \<^verbatim>\<open>type\<close> \<^verbatim>\<open>Feature\<close>, a non-null geometry
  object and a string \<^verbatim>\<open>GEOID\<close> property; the features after the first are not inspected,
  and an empty collection is accepted.
\<close>

theorem validateGeoJSON_spot_check:
  "(validateGeoJSON payload = Inr True) =
     (\<exists>members features.
        payload = JObject members
        \<and> map_of members ''type'' = Some (JString ''FeatureCollection'')
        \<and> map_of members ''features'' = Some (JArray features)
        \<and> (features = [] \<or> firstFeatureValid (hd features)))"
proof (cases payload)
  case (JObject members)
  show ?thesis
  proof (cases "map_of members ''features''")
    case None
    then show ?thesis by (simp add: JObject validateGeoJSON_def)
  next
    case (Some v)
    then show ?thesis
      by (cases v; simp add: JObject validateGeoJSON_def firstFeatureValid_def split: list.split)
  qed
qed (simp_all add: validateGeoJSON_def)

text \<open>
  The empty collection and a collection with a malformed second element are accepted; a
  collection whose first feature lacks the join key is not.
\<close>

theorem validateGeoJSON_spot_check_witness:
  "validateGeoJSON (featureCollection []) = Inr True
   \<and> validateGeoJSON (featureCollection [countyFeature ''48201'', JNull]) = Inr True
   \<and> validateGeoJSON (featureCollection [featureWithoutJoinKey, countyFeature ''48201'']) \<noteq> Inr True"
  using validateGeoJSON_spot_check [of "featureCollection []"]
    validateGeoJSON_spot_check [of "featureCollection [countyFeature ''48201'', JNull]"]
    validateGeoJSON_spot_check [of "featureCollection [featureWithoutJoinKey, countyFeature ''48201'']"]
  by (simp add: featureCollection_def firstFeatureValid_def countyFeature_def featureWithoutJoinKey_def)

section \<open>Properties of the hover tooltip\<close>

text \<open>
  C10. When the feature under the pointer lacks the \<^verbatim>\<open>GEOID\<close> or the \<^verbatim>\<open>NAME\<close> property, the
  frame update sets the tooltip to \<^verbatim>\<open>null\<close>; a tooltip is emitted only for a feature that has
  both, it carries that name and the pointer position, and its score is \<^verbatim>\<open>null\<close> when there
  is no score entry for the join key (and the entry's score otherwise).
\<close>

theorem frameUpdate_needs_both_properties:
  "(firstFeature e = Some f \<and> (property f ''GEOID'' = None \<or> property f ''NAME'' = None)
      \<longrightarrow> frameUpdate scoresRef e = None)
   \<and> (frameUpdate scoresRef e = Some t
      \<longrightarrow> (\<exists>f g n. firstFeature e = Some f \<and> property f ''GEOID'' = Some g
             \<and> property f ''NAME'' = Some n \<and> countyName t = n
             \<and> tooltip_x t = point_x e \<and> tooltip_y t = point_y e
             \<and> (scoreEntryOf scoresRef g = None \<longrightarrow> tooltip_score t = None)
             \<and> (\<forall>se. scoreEntryOf scoresRef g = Some se \<longrightarrow> tooltip_score t = Some (score se))))"
proof (intro conjI impI)
  assume "firstFeature e = Some f \<and> (property f ''GEOID'' = None \<or> property f ''NAME'' = None)"
  then show "frameUpdate scoresRef e = None"
    by (auto simp: frameUpdate_def Let_def)
next
  assume a: "frameUpdate scoresRef e = Some t"
  then obtain f' where f: "firstFeature e = Some f'"
    by (cases "firstFeature e") (simp_all add: frameUpdate_def)
  from a f obtain g n where g: "property f' ''GEOID'' = Some g" and n: "property f' ''NAME'' = Some n"
    by (cases "property f' ''GEOID''"; cases "property f' ''NAME''") (simp_all add: frameUpdate_def Let_def)
  from a f g n have h: "countyName t = n \<and> tooltip_x t = point_x e \<and> tooltip_y t = point_y e
             \<and> (scoreEntryOf scoresRef g = None \<longrightarrow> tooltip_score t = None)
             \<and> (\<forall>se. scoreEntryOf scoresRef g = Some se \<longrightarrow> tooltip_score t = Some (score se))"
    by (auto simp: frameUpdate_def Let_def split: if_splits)
  show "\<exists>f g n. firstFeature e = Some f \<and> property f ''GEOID'' = Some g
             \<and> property f ''NAME'' = Some n \<and> countyName t = n
             \<and> tooltip_x t = point_x e \<and> tooltip_y t = point_y e
             \<and> (scoreEntryOf scoresRef g = None \<longrightarrow> tooltip_score t = None)
             \<and> (\<forall>se. scoreEntryOf scoresRef g = Some se \<longrightarrow> tooltip_score t = Some (score se))"
    using f g n h by (intro exI [of _ f'] exI [of _ g] exI [of _ n]) simp
qed

text \<open>
  A feature without \<^verbatim>\<open>NAME\<close> clears the tooltip; Cook County, which has no score entry,
  gets a tooltip with a \<^verbatim>\<open>null\<close> score.
\<close>

theorem frameUpdate_needs_both_properties_witness:
  "frameUpdate (Some tiedScores) (hoverOver namelessFeature) = None
   \<and> frameUpdate (Some tiedScores) (hoverOver cookCounty)
       = Some \<lparr>tooltip_x = 120, tooltip_y = 80, countyName = ''Cook'', stateName = [],
               tooltip_score = None\<rparr>"
proof -
  have 1: "firstFeature (hoverOver namelessFeature) = Some namelessFeature
      \<and> (property namelessFeature ''GEOID'' = None \<or> property namelessFeature ''NAME'' = None)"
    by (simp add: firstFeature_def hoverOver_def namelessFeature_def property_def)
  have 2: "frameUpdate (Some tiedScores) (hoverOver cookCounty)
       = Some \<lparr>tooltip_x = 120, tooltip_y = 80, countyName = ''Cook'', stateName = [],
               tooltip_score = None\<rparr>"
    by (simp add: frameUpdate_def firstFeature_def hoverOver_def cookCounty_def property_def
        scoreEntryOf_def tiedScores_def)
  from 1 2 show ?thesis
    using frameUpdate_needs_both_properties [of "hoverOver namelessFeature" namelessFeature "Some tiedScores"]
    by simp
qed

section \<open>Properties of the viewport fit\<close>

lemma finite_longitudes: "finite (longitudes c)"
  by (induction c rule: longitudes.induct) auto

lemma finite_latitudes: "finite (latitudes c)"
  by (induction c rule: latitudes.induct) auto

lemma num_lt_NaN [simp]: "num_lt a NaN = False"
  by (cases a) simp_all

lemma lowest_insert:
  assumes "finite S"
  shows "lowest (insert x S) = (if num_lt (Finite x) (lowest S) then Finite x else lowest S)"
proof (cases "S = {}")
  case True
  then show ?thesis by (simp add: lowest_def)
next
  case False
  then have "Min (insert x S) = min x (Min S)"
    using assms by (rule_tac Min_insert) 
  then show ?thesis
    using False by (simp add: lowest_def min_def)
qed

lemma highest_insert:
  assumes "finite S"
  shows "highest (insert x S) = (if num_gt (Finite x) (highest S) then Finite x else highest S)"
proof (cases "S = {}")
  case True
  then show ?thesis by (simp add: highest_def num_gt_def)
next
  case False
  then have "Max (insert x S) = max x (Max S)"
    using assms by (rule_tac Max_insert)
  then show ?thesis
    using False by (simp add: highest_def max_def num_gt_def)
qed

lemma extendBox_boxOf:
  assumes "finite L" "finite T"
  shows "extendBox (boxOf L T) (Finite lng) (latitude rest)
    = boxOf (insert lng L) (T \<union> latitudes (Position (lng # rest)))"
proof (cases rest)
  case Nil
  then show ?thesis
    using assms by (simp add: extendBox_def boxOf_def lowest_insert highest_insert num_gt_def)
next
  case (Cons lat more)
  then show ?thesis
    using assms by (simp add: extendBox_def boxOf_def lowest_insert highest_insert)
qed

lemma walk_boxOf:
  "b = boxOf L T \<Longrightarrow> finite L \<Longrightarrow> finite T \<Longrightarrow>
   walk stack b = boxOf (L \<union> (\<Union>c \<in> set stack. longitudes c)) (T \<union> (\<Union>c \<in> set stack. latitudes c))"
proof (induction stack b arbitrary: L T rule: walk.induct)
  case (1 b)
  then show ?case by simp
next
  case (2 stack b)
  then show ?case by simp
next
  case (3 lng rest stack b)
  have "extendBox b (Finite lng) (latitude rest) = boxOf (insert lng L) (T \<union> latitudes (Position (lng # rest)))"
    using 3(2-4) by (simp add: extendBox_boxOf)
  from 3(1) [OF this] 3(3,4) show ?case
    by (simp add: finite_latitudes Un_assoc)
next
  case (4 items stack b)
  from 4(1) [OF 4(2-4)] show ?case
    by (simp add: Un_assoc Un_commute Un_left_commute)
qed

lemma featureBox_boxOf:
  "finite L \<Longrightarrow> finite T \<Longrightarrow>
   featureBox f (boxOf L T) = boxOf (L \<union> featureLongitudes f) (T \<union> featureLatitudes f)"
  by (auto simp: featureBox_def featureLongitudes_def featureLatitudes_def walk_boxOf
      split: option.split Geometry.split)

lemma finite_featureLongitudes: "finite (featureLongitudes f)"
  by (auto simp: featureLongitudes_def finite_longitudes split: option.split Geometry.split)

lemma finite_featureLatitudes: "finite (featureLatitudes f)"
  by (auto simp: featureLatitudes_def finite_latitudes split: option.split Geometry.split)

lemma fold_featureBox:
  "finite L \<Longrightarrow> finite T \<Longrightarrow>
   fold featureBox fs (boxOf L T)
     = boxOf (L \<union> (\<Union>f \<in> set fs. featureLongitudes f)) (T \<union> (\<Union>f \<in> set fs. featureLatitudes f))"
proof (induction fs arbitrary: L T)
  case Nil
  then show ?case by simp
next
  case (Cons f fs)
  then show ?case
    by (simp add: featureBox_boxOf finite_featureLongitudes finite_featureLatitudes Un_assoc)
qed

lemma emptyBox_boxOf: "emptyBox = boxOf {} {}"
  by (simp add: emptyBox_def boxOf_def lowest_def highest_def)

lemma nondegenerate:
  "finite S \<Longrightarrow> num_lt (lowest S) (highest S) = (S \<noteq> {} \<and> Min S < Max S)"
  by (simp add: lowest_def highest_def)

lemma finite_fitLongitudes: "finite (fitLongitudes stateEntry geojson)"
  by (simp add: fitLongitudes_def finite_featureLongitudes)

lemma finite_fitLatitudes: "finite (fitLatitudes stateEntry geojson)"
  by (simp add: fitLatitudes_def finite_featureLatitudes)

lemma fold_matching:
  "fold featureBox (matching stateEntry geojson) emptyBox
     = boxOf (fitLongitudes stateEntry geojson) (fitLatitudes stateEntry geojson)"
  by (simp add: emptyBox_boxOf fold_featureBox fitLongitudes_def fitLatitudes_def)

lemma fitBoundsEffect_found:
  assumes "sf \<noteq> []" and "find (\<lambda>s. entry_abbreviation s = sf) stateList = Some stateEntry"
  shows "fitBoundsEffect True stateList (Some sf) (Some geojson) =
     (if matching stateEntry geojson \<noteq> []
         \<and> fitLongitudes stateEntry geojson \<noteq> {}
         \<and> Min (fitLongitudes stateEntry geojson) < Max (fitLongitudes stateEntry geojson)
         \<and> fitLatitudes stateEntry geojson \<noteq> {}
         \<and> Min (fitLatitudes stateEntry geojson) < Max (fitLatitudes stateEntry geojson)
      then Some (FitBounds (Finite (Min (fitLongitudes stateEntry geojson)))
                  (Finite (Min (fitLatitudes stateEntry geojson)))
                  (Finite (Max (fitLongitudes stateEntry geojson)))
                  (Finite (Max (fitLatitudes stateEntry geojson))) 40 10)
      else None)"
  using assms
  by (simp add: fitBoundsEffect_def Let_def matching_def [symmetric] fold_matching boxOf_def
      nondegenerate finite_fitLongitudes finite_fitLatitudes)
     (auto simp: lowest_def highest_def)

text \<open>
  C9. With the map present and the table's abbreviations of length 2, for every non-null
  state filter the effect requests a viewport fit if and only if the abbreviation is found in
  the table, the cached geometry is loaded, at least one feature's \<^verbatim>\<open>STATE\<close> property is the
  entry's region code, and the box over the coordinates of the matching features (those of
  a \<^verbatim>\<open>GeometryCollection\<close> or a \<^verbatim>\<open>null\<close> geometry skipped) has its minimum strictly below
  its maximum on both axes; the request then is for exactly that box
  \<open>[[min lng, min lat], [max lng, max lat]]\<close> with padding 40 and maximum zoom 10.
\<close>

theorem fitBoundsEffect_iff:
  assumes "mapRef" and "\<forall>s \<in> set stateList. length (entry_abbreviation s) = 2"
  shows "(fitBoundsEffect mapRef stateList (Some sf) geojsonRef = Some (FitBounds a b c d p z)) =
     (\<exists>stateEntry geojson.
        find (\<lambda>s. entry_abbreviation s = sf) stateList = Some stateEntry
        \<and> geojsonRef = Some geojson
        \<and> matching stateEntry geojson \<noteq> []
        \<and> fitLongitudes stateEntry geojson \<noteq> {}
        \<and> Min (fitLongitudes stateEntry geojson) < Max (fitLongitudes stateEntry geojson)
        \<and> fitLatitudes stateEntry geojson \<noteq> {}
        \<and> Min (fitLatitudes stateEntry geojson) < Max (fitLatitudes stateEntry geojson)
        \<and> a = Finite (Min (fitLongitudes stateEntry geojson))
        \<and> b = Finite (Min (fitLatitudes stateEntry geojson))
        \<and> c = Finite (Max (fitLongitudes stateEntry geojson))
        \<and> d = Finite (Max (fitLatitudes stateEntry geojson))
        \<and> p = 40 \<and> z = 10)"
proof (cases "find (\<lambda>s. entry_abbreviation s = sf) stateList")
  case None
  then show ?thesis
    using assms(1) by (simp add: fitBoundsEffect_def)
next
  case (Some stateEntry)
  then have "stateEntry \<in> set stateList" and "entry_abbreviation stateEntry = sf"
    by (auto simp: find_Some_iff)
  with assms(2) have sf: "sf \<noteq> []"
    by auto
  show ?thesis
  proof (cases geojsonRef)
    case None
    then show ?thesis
      using assms(1) Some sf by (simp add: fitBoundsEffect_def)
  next
    case (Some geojson)
    show ?thesis
      using assms(1) fitBoundsEffect_found [OF sf \<open>find (\<lambda>s. entry_abbreviation s = sf) stateList = Some stateEntry\<close>, of geojson]
      by (auto simp: Some \<open>find (\<lambda>s. entry_abbreviation s = sf) stateList = Some stateEntry\<close>)
  qed
qed

lemma matching_sample:
  "matching \<lparr>entry_abbreviation = ''TX'', entry_name = ''Texas'', entry_fips = ''48''\<rparr> sampleGeojson
     = [harrisFeature, dallasFeature]"
  by (simp add: matching_def sampleGeojson_def property_def harrisFeature_def browardFeature_def
      dallasFeature_def)

lemma fitLongitudes_sample:
  "fitLongitudes \<lparr>entry_abbreviation = ''TX'', entry_name = ''Texas'', entry_fips = ''48''\<rparr> sampleGeojson
     = {- 97, - 96, - 95}"
  unfolding fitLongitudes_def matching_sample
  by (auto simp: featureLongitudes_def harrisFeature_def dallasFeature_def)

lemma fitLatitudes_sample:
  "fitLatitudes \<lparr>entry_abbreviation = ''TX'', entry_name = ''Texas'', entry_fips = ''48''\<rparr> sampleGeojson
     = {29, 30, 32, 33}"
  unfolding fitLatitudes_def matching_sample
  by (auto simp: featureLatitudes_def harrisFeature_def dallasFeature_def)

text \<open>
  Filtering on Texas fits the box of Harris and Dallas counties; with no geometry cached no
  fit is requested.
\<close>

theorem fitBoundsEffect_iff_witness:
  "fitBoundsEffect True sampleStates (Some ''TX'') (Some sampleGeojson)
     = Some (FitBounds (Finite (- 97)) (Finite 29) (Finite (- 95)) (Finite 33) 40 10)
   \<and> fitBoundsEffect True sampleStates (Some ''TX'') None
     \<noteq> Some (FitBounds (Finite (- 97)) (Finite 29) (Finite (- 95)) (Finite 33) 40 10)"
proof -
  let ?tx = "\<lparr>entry_abbreviation = ''TX'', entry_name = ''Texas'', entry_fips = ''48''\<rparr>"
  have wf: "\<forall>s \<in> set sampleStates. length (entry_abbreviation s) = 2"
    by (simp add: sampleStates_def)
  have f: "find (\<lambda>s. entry_abbreviation s = ''TX'') sampleStates = Some ?tx"
    by (simp add: sampleStates_def)
  have m: "matching ?tx sampleGeojson \<noteq> []"
    by (simp add: matching_sample)
  have "\<exists>stateEntry geojson.
        find (\<lambda>s. entry_abbreviation s = ''TX'') sampleStates = Some stateEntry
        \<and> Some sampleGeojson = Some geojson
        \<and> matching stateEntry geojson \<noteq> []
        \<and> fitLongitudes stateEntry geojson \<noteq> {}
        \<and> Min (fitLongitudes stateEntry geojson) < Max (fitLongitudes stateEntry geojson)
        \<and> fitLatitudes stateEntry geojson \<noteq> {}
        \<and> Min (fitLatitudes stateEntry geojson) < Max (fitLatitudes stateEntry geojson)
        \<and> Finite (- 97) = Finite (Min (fitLongitudes stateEntry geojson))
        \<and> Finite 29 = Finite (Min (fitLatitudes stateEntry geojson))
        \<and> Finite (- 95) = Finite (Max (fitLongitudes stateEntry geojson))
        \<and> Finite 33 = Finite (Max (fitLatitudes stateEntry geojson))
        \<and> (40::real) = 40 \<and> (10::real) = 10"
    using f m by (intro exI [of _ ?tx] exI [of _ sampleGeojson])
      (simp add: fitLongitudes_sample fitLatitudes_sample)
  then have 1: "fitBoundsEffect True sampleStates (Some ''TX'') (Some sampleGeojson)
     = Some (FitBounds (Finite (- 97)) (Finite 29) (Finite (- 95)) (Finite 33) 40 10)"
    using fitBoundsEffect_iff [OF TrueI wf, of "''TX''" "Some sampleGeojson"
        "Finite (- 97)" "Finite 29" "Finite (- 95)" "Finite 33" 40 10]
    by simp
  have 2: "fitBoundsEffect True sampleStates (Some ''TX'') None
     \<noteq> Some (FitBounds (Finite (- 97)) (Finite 29) (Finite (- 95)) (Finite 33) 40 10)"
    using fitBoundsEffect_iff [OF TrueI wf, of "''TX''" None
        "Finite (- 97)" "Finite 29" "Finite (- 95)" "Finite 33" 40 10]
    by simp
  from 1 2 show ?thesis by simp
qed

section \<open>Properties of the style swap\<close>

lemma settled_mapStep:
  "settled v \<Longrightarrow> swapSignal e \<Longrightarrow> settled (mapStep v e) \<and> mapReady (mapStep v e) = mapReady v
     \<and> readyCommits (mapStep v e) = readyCommits v"
  by (cases e) (auto simp: onStyleLoad_def onTimeout_def split: option.split)

lemma settled_mapRun:
  "settled v \<Longrightarrow> \<forall>e \<in> set es. swapSignal e \<Longrightarrow>
   settled (mapRun v es) \<and> mapReady (mapRun v es) = mapReady v
     \<and> readyCommits (mapRun v es) = readyCommits v"
  unfolding mapRun_def
  by (induction es arbitrary: v) (simp_all add: settled_mapStep del: mapStep.simps)

lemma now_mapStep:
  "swapSignal e \<Longrightarrow> now (mapStep v e) = now v + (case e of Elapse d \<Rightarrow> d | other \<Rightarrow> 0)"
  by (cases e) (auto simp: onStyleLoad_def onTimeout_def split: option.split)

lemma firstSignal_ge: "firstSignal t es = Some u \<Longrightarrow> t \<le> u"
  by (induction t es rule: firstSignal.induct) auto

lemma now_mapRun: "\<forall>e \<in> set es. swapSignal e \<Longrightarrow> now (mapRun v es) = now v + elapsed es"
  unfolding mapRun_def elapsed_def
  by (induction es arbitrary: v) (simp_all add: now_mapStep del: mapStep.simps)

lemma pending_mapRun:
  assumes "\<not> settled v" "styleLoadListener v" "timeoutId v = Some dl" "now v < dl"
    "readyCommits v = []" "\<not> mapReady v" "\<forall>e \<in> set es. swapSignal e"
  shows "readyCommits (mapRun v es) =
           (case firstSignal (now v) es of
              Some t \<Rightarrow> [min t dl]
            | None \<Rightarrow> if dl \<le> now v + elapsed es then [dl] else [])
         \<and> mapReady (mapRun v es) = (readyCommits (mapRun v es) \<noteq> [])"
  using assms
proof (induction es arbitrary: v)
  case Nil
  then show ?case by (simp add: mapRun_def elapsed_def)
next
  case (Cons e es)
  have rest: "\<forall>e \<in> set es. swapSignal e"
    using Cons.prems(7) by simp
  show ?case
  proof (cases e)
    case StyleLoad
    let ?w = "mapStep v StyleLoad"
    have w: "settled ?w" "mapReady ?w" "readyCommits ?w = [now v]"
      using Cons.prems by (simp_all add: onStyleLoad_def)
    have "mapRun v (StyleLoad # es) = mapRun ?w es"
      by (simp add: mapRun_def)
    then show ?thesis
      unfolding StyleLoad
      using settled_mapRun [OF w(1) rest] w Cons.prems(4) by (simp del: mapStep.simps)
  next
    case (Elapse d)
    let ?w = "mapStep v (Elapse d)"
    have run: "mapRun v (Elapse d # es) = mapRun ?w es"
      by (simp add: mapRun_def)
    show ?thesis
    proof (cases "dl \<le> now v + d")
      case True
      have w: "settled ?w" "mapReady ?w" "readyCommits ?w = [dl]"
        using Cons.prems True by (simp_all add: onTimeout_def)
      have "min t dl = dl" if "firstSignal (now v + d) es = Some t" for t
        using firstSignal_ge [OF that] True by simp
      then show ?thesis
        unfolding Elapse run
        using settled_mapRun [OF w(1) rest] w True
        by (auto simp: elapsed_def split: option.split simp del: mapStep.simps)
    next
      case False
      have w: "\<not> settled ?w" "styleLoadListener ?w" "timeoutId ?w = Some dl" "now ?w < dl"
        "readyCommits ?w = []" "\<not> mapReady ?w"
        using Cons.prems False by simp_all
      have n: "now ?w = now v + d"
        using Cons.prems False by simp
      from Cons.IH [OF w rest] show ?thesis
        unfolding Elapse run
        by (simp add: n elapsed_def add.assoc del: mapStep.simps)
    qed
  next
    case EngineLoad
    then show ?thesis using Cons.prems(7) by simp
  next
    case (ThemeChange r n)
    then show ?thesis using Cons.prems(7) by simp
  qed
qed

text \<open>
  A swap that is left alone. When the style-switch effect begins a swap (the style does not
  match the theme) the map is not ready; in every run of \<^verbatim>\<open>style.load\<close> signals and passing
  time, with no further change of theme, \<^verbatim>\<open>setMapReady(true)\<close> is called at the time of the
  first \<^verbatim>\<open>style.load\<close> signal or 5000 ms after the swap began, whichever is earlier, the map
  is ready from then on, and the call is made at most once.
\<close>

lemma styleSwap_ready_once:
  assumes "isDark currentName \<noteq> (resolved = Dark)" and "\<forall>e \<in> set es. swapSignal e"
  shows "\<not> mapReady (mapStep v (ThemeChange resolved currentName))
     \<and> readyCommits (mapRun v (ThemeChange resolved currentName # es)) =
         (case firstSignal (now v) es of
            Some t \<Rightarrow> [min t (now v + 5000)]
          | None \<Rightarrow> if 5000 \<le> elapsed es then [now v + 5000] else [])
     \<and> mapReady (mapRun v (ThemeChange resolved currentName # es))
         = (readyCommits (mapRun v (ThemeChange resolved currentName # es)) \<noteq> [])
     \<and> length (readyCommits (mapRun v (ThemeChange resolved currentName # es))) \<le> 1"
proof -
  let ?w = "mapStep v (ThemeChange resolved currentName)"
  have w: "\<not> settled ?w" "styleLoadListener ?w" "timeoutId ?w = Some (now v + 5000)"
    "now ?w < now v + 5000" "readyCommits ?w = []" "\<not> mapReady ?w"
    using assms(1) by (simp_all add: styleSwitchEffect_def cleanup_def Let_def)
  have n: "now ?w = now v"
    by (simp add: styleSwitchEffect_def cleanup_def Let_def)
  have r: "mapRun v (ThemeChange resolved currentName # es) = mapRun ?w es"
    by (simp add: mapRun_def)
  from pending_mapRun [OF w assms(2)] w(6) show ?thesis
    unfolding r by (auto simp: n split: option.split simp del: mapStep.simps)
qed

lemma isDark_Positron: "\<not> isDark (Some ''Positron'')"
  by (simp add: isDark_def toLowerCase_def upperToLower_def)

lemma isDark_None: "\<not> isDark None"
  by (simp add: isDark_def toLowerCase_def)

text \<open>
  A swap begun at time 1000: with the signal after 300 ms the map is ready at 1300 and the
  timer adds nothing; with no signal it is ready at 6000; after 4999 ms it is still
  restyling.
\<close>

lemma styleSwap_ready_once_sample:
  "readyCommits (mapRun readyView
       [ThemeChange Dark (Some ''Positron''), Elapse 300, StyleLoad, Elapse 5000]) = [1300]
   \<and> mapReady (mapRun readyView
       [ThemeChange Dark (Some ''Positron''), Elapse 300, StyleLoad, Elapse 5000])
   \<and> readyCommits (mapRun readyView [ThemeChange Dark (Some ''Positron''), Elapse 5000]) = [6000]
   \<and> \<not> mapReady (mapRun readyView [ThemeChange Dark (Some ''Positron''), Elapse 4999])"
proof -
  have a: "isDark (Some ''Positron'') \<noteq> (Dark = Dark)"
    by (simp add: isDark_Positron)
  show ?thesis
    using styleSwap_ready_once [OF a, of "[Elapse 300, StyleLoad, Elapse 5000]" readyView]
      styleSwap_ready_once [OF a, of "[Elapse 5000]" readyView]
      styleSwap_ready_once [OF a, of "[Elapse 4999]" readyView]
    by (simp add: elapsed_def readyView_def)
qed

text \<open>
  A swap that is interrupted. A change of theme before the swap has settled runs the cleanup,
  which removes the listener and the timer; if the effect then finds the reported style
  matching the theme, it returns without beginning a swap, and no later \<^verbatim>\<open>style.load\<close> signal
  and no passing of time makes the map ready.
\<close>

lemma cancelled_mapStep:
  "\<not> styleLoadListener v \<Longrightarrow> timeoutId v = None \<Longrightarrow> swapSignal e \<Longrightarrow>
   \<not> styleLoadListener (mapStep v e) \<and> timeoutId (mapStep v e) = None
     \<and> mapReady (mapStep v e) = mapReady v"
  by (cases e) simp_all

lemma cancelled_mapRun:
  "\<not> styleLoadListener v \<Longrightarrow> timeoutId v = None \<Longrightarrow> \<forall>e \<in> set es. swapSignal e \<Longrightarrow>
   mapReady (mapRun v es) = mapReady v"
  unfolding mapRun_def
  by (induction es arbitrary: v) (simp_all add: cancelled_mapStep del: mapStep.simps)

lemma interrupted_swap_stays_restyling:
  assumes "isDark currentName \<noteq> (resolved = Dark)" and "isDark laterName = (back = Dark)"
    and "\<forall>e \<in> set es. swapSignal e"
  shows "\<not> mapReady (mapRun v (ThemeChange resolved currentName # ThemeChange back laterName # es))"
proof -
  let ?u = "mapStep v (ThemeChange resolved currentName)"
  let ?w = "mapStep ?u (ThemeChange back laterName)"
  have u: "\<not> mapReady ?u"
    using assms(1) by (simp add: styleSwitchEffect_def cleanup_def Let_def)
  have "?w = cleanup ?u"
    using assms(2) by (simp add: styleSwitchEffect_def Let_def)
  then have w: "\<not> styleLoadListener ?w" "timeoutId ?w = None" "\<not> mapReady ?w"
    using u by (simp_all add: cleanup_def del: mapStep.simps)
  have "mapRun v (ThemeChange resolved currentName # ThemeChange back laterName # es) = mapRun ?w es"
    by (simp add: mapRun_def)
  with cancelled_mapRun [OF w(1,2) assms(3)] w(3) show ?thesis
    by (simp del: mapStep.simps)
qed

text \<open>
  C8 (the code departs from the claim). The map has loaded with the light style and is
  ready. The theme changes to dark, so a swap begins, and 100 ms later, while the engine
  still reports the light style \<^verbatim>\<open>Positron\<close> (or no style), it changes back to light. Then
  the \<^verbatim>\<open>style.load\<close> signal arrives, 5000 ms pass and another hour passes, and the map is
  still not ready: no \<^verbatim>\<open>setMapReady(true)\<close> has been called, and neither the listener nor
  the timer is left to call it.
\<close>

theorem theme_toggled_back_stays_restyling:
  "mapReady readyView
   \<and> \<not> mapReady (mapRun readyView
         [ThemeChange Dark (Some ''Positron''), Elapse 100, ThemeChange Light (Some ''Positron''),
          Elapse 200, StyleLoad, Elapse 5000, Elapse 3600000])
   \<and> readyCommits (mapRun readyView
         [ThemeChange Dark (Some ''Positron''), Elapse 100, ThemeChange Light (Some ''Positron''),
          Elapse 200, StyleLoad, Elapse 5000, Elapse 3600000]) = []
   \<and> \<not> styleLoadListener (mapRun readyView
         [ThemeChange Dark (Some ''Positron''), Elapse 100, ThemeChange Light (Some ''Positron'')])
   \<and> timeoutId (mapRun readyView
         [ThemeChange Dark (Some ''Positron''), Elapse 100, ThemeChange Light (Some ''Positron'')]) = None
   \<and> \<not> mapReady (mapRun readyView
         [ThemeChange Dark (Some ''Positron''), Elapse 100, ThemeChange Light None,
          Elapse 200, StyleLoad, Elapse 5000, Elapse 3600000])"
  by (simp add: mapRun_def readyView_def styleSwitchEffect_def cleanup_def isDark_Positron
      isDark_None onStyleLoad_def onTimeout_def Let_def)

section \<open>Properties of the industry data hook\<close>

lemma ID_coffee: "ID_FORMAT_test ''coffee-shops''" "ID_FORMAT_test ''gyms''" "ID_FORMAT_test ''bogus-id''"
  "\<not> ID_FORMAT_test ''../secret''"
  by (simp_all add: ID_FORMAT_test_def ID_FORMAT_def)

text \<open>
  C6 (as stated, refuted). The empty string fails the identifier pattern, yet selecting it
  with the catalog loaded leaves no error: the effect treats an empty id like no selection.
\<close>

theorem empty_id_counterexample:
  "\<not> ID_FORMAT_test [] \<and> \<not> industriesLoading catalogLoaded
   \<and> scoresError (selectionChanged (Some []) catalogLoaded) = None"
  by (simp add: ID_FORMAT_test_def catalogLoaded_def industriesLoaded_def selectionChanged_def
      scoresEffect_def scoresCleanup_def initialIndustryData_def)

text \<open>
  C6 (amended). Once the catalog has finished loading, selecting a non-empty industry id that
  fails the identifier pattern or is not an id of the catalog sets the error
  \<^verbatim>\<open>Unknown industry ID\<close> (with the id appended when only the catalog lookup fails), clears
  the score data, and issues no request: the requests in flight are the ones there were
  before, all cancelled.
\<close>

theorem invalid_id_short_circuits:
  assumes "\<not> industriesLoading h" and "sid \<noteq> []"
    and "\<not> ID_FORMAT_test sid \<or> sid \<notin> industry_id ` set (industriesRef h)"
  shows "(scoresError (selectionChanged (Some sid) h) = Some ''Unknown industry ID''
          \<or> scoresError (selectionChanged (Some sid) h) = Some (''Unknown industry ID: '' @ sid))
       \<and> rawScores (selectionChanged (Some sid) h) = None
       \<and> \<not> scoresLoading (selectionChanged (Some sid) h)
       \<and> map request_id (requests (selectionChanged (Some sid) h)) = map request_id (requests h)
       \<and> list_all cancelled (requests (selectionChanged (Some sid) h))"
proof -
  have l: "list_ex (\<lambda>ind. industry_id ind = sid) (industriesRef h) = (sid \<in> industry_id ` set (industriesRef h))"
    by (auto simp: list_ex_iff)
  show ?thesis
    using assms
    by (auto simp: selectionChanged_def scoresEffect_def scoresCleanup_def l comp_def list_all_iff)
qed

text \<open>The scenario of the specification (\<^verbatim>\<open>bogus-id\<close>), and an id that fails the pattern.\<close>

theorem invalid_id_short_circuits_witness:
  "scoresError (selectionChanged (Some ''bogus-id'') catalogLoaded) = Some ''Unknown industry ID: bogus-id''
   \<and> scoresError (selectionChanged (Some ''../secret'') catalogLoaded) = Some ''Unknown industry ID''
   \<and> requests (selectionChanged (Some ''bogus-id'') catalogLoaded) = []"
proof -
  have a: "\<not> industriesLoading catalogLoaded" and r: "requests catalogLoaded = []"
    and i: "industriesRef catalogLoaded = sampleCatalog"
    by (simp_all add: catalogLoaded_def industriesLoaded_def initialIndustryData_def)
  have b: "\<not> ID_FORMAT_test ''bogus-id'' \<or> ''bogus-id'' \<notin> industry_id ` set (industriesRef catalogLoaded)"
    by (simp add: i sampleCatalog_def)
  have c: "\<not> ID_FORMAT_test ''../secret'' \<or> ''../secret'' \<notin> industry_id ` set (industriesRef catalogLoaded)"
    by (simp add: ID_coffee)
  have d: "scoresError (selectionChanged (Some ''bogus-id'') catalogLoaded) \<noteq> Some ''Unknown industry ID''"
    by (simp add: selectionChanged_def scoresEffect_def scoresCleanup_def ID_coffee i sampleCatalog_def)
  have e: "scoresError (selectionChanged (Some ''../secret'') catalogLoaded) \<noteq> Some ''Unknown industry ID: ../secret''"
    by (simp add: selectionChanged_def scoresEffect_def scoresCleanup_def ID_coffee)
  show ?thesis
    using invalid_id_short_circuits [OF a _ b] invalid_id_short_circuits [OF a _ c] d e r
    by simp
qed

text \<open>
  The empty id, in every state of the hook: no error, no score data, no request, as with no
  selection at all.
\<close>

lemma empty_id_like_no_selection:
  "scoresError (selectionChanged (Some []) h) = None
   \<and> rawScores (selectionChanged (Some []) h) = None
   \<and> \<not> scoresLoading (selectionChanged (Some []) h)
   \<and> map request_id (requests (selectionChanged (Some []) h)) = map request_id (requests h)
   \<and> selectionChanged (Some []) h = selectionChanged None h"
  by (simp add: selectionChanged_def scoresEffect_def scoresCleanup_def comp_def)

section \<open>Properties of the demographics hook\<close>

lemma singleFlight_initial: "singleFlight initialCountyData"
  by (simp add: singleFlight_def initialCountyData_def)

lemma singleFlight_ensureLoaded: "singleFlight h \<Longrightarrow> singleFlight (snd (ensureLoaded h))"
  by (auto simp: singleFlight_def ensureLoaded_def split: list.splits option.splits)

lemma singleFlight_fetchSettled: "singleFlight h \<Longrightarrow> singleFlight (fetchSettled p result h)"
  by (auto simp: singleFlight_def fetchSettled_def split: list.splits settlement.splits)

lemma singleFlight_render: "singleFlight h \<Longrightarrow> singleFlight (render h)"
  by (auto simp: singleFlight_def render_def split: list.splits)

lemma singleFlight_retry: "inFlight h = [] \<Longrightarrow> singleFlight (retry h)"
  by (simp add: singleFlight_def retry_def)

lemma singleFlight_step:
  "singleFlight h \<Longrightarrow> (case e of CallRetry \<Rightarrow> inFlight h = [] | other \<Rightarrow> True) \<Longrightarrow>
   singleFlight (hookStep h e)"
  by (cases e)
    (simp_all add: singleFlight_ensureLoaded singleFlight_fetchSettled singleFlight_render
      singleFlight_retry)

lemma singleFlight_foldl:
  "singleFlight h \<Longrightarrow> retriesWhenIdle h es \<Longrightarrow> singleFlight (foldl hookStep h es)"
proof (induction es arbitrary: h)
  case Nil
  then show ?case by simp
next
  case (Cons e es)
  from Cons.prems have "singleFlight (hookStep h e)" and "retriesWhenIdle (hookStep h e) es"
    by (simp_all add: singleFlight_step del: hookStep.simps)
  with Cons.IH [of "hookStep h e"] show ?case
    by (simp del: hookStep.simps)
qed

lemma retriesWhenIdle_take: "retriesWhenIdle h es \<Longrightarrow> retriesWhenIdle h (take n es)"
proof (induction es arbitrary: h n)
  case Nil
  then show ?case by simp
next
  case (Cons e es)
  then show ?case by (cases n) (simp_all del: hookStep.simps)
qed

lemma singleFlight_length: "singleFlight h \<Longrightarrow> length (inFlight h) \<le> 1"
  by (auto simp: singleFlight_def split: list.splits)

lemma singleFlight_shares:
  assumes "singleFlight h" and "inFlight h = [p]"
  shows "ensureLoaded h = (SharedPromise p, h)"
  using assms by (simp add: singleFlight_def ensureLoaded_def)

lemma singleFlight_starts:
  assumes "inFlight h = []" and "inFlight (snd (ensureLoaded h)) = [p]"
  shows "fst (ensureLoaded h) = OwnAttempt p"
  using assms by (auto simp: ensureLoaded_def split: if_splits option.splits)

lemma callLog_calls:
  assumes "singleFlight h" and "retriesWhenIdle h es" and "c \<in> set (callLog h es)"
  shows "(\<forall>p. pendingBefore c = [p] \<longrightarrow> returned c = SharedPromise p \<and> pendingAfter c = [p])
       \<and> (\<forall>p. pendingAfter c = [p] \<longrightarrow> returned c = OwnAttempt p \<or> returned c = SharedPromise p)"
  using assms
proof (induction es arbitrary: h)
  case Nil
  then show ?case by simp
next
  case (Cons e es)
  have step: "singleFlight (hookStep h e)" "retriesWhenIdle (hookStep h e) es"
    using Cons.prems(1,2) by (simp_all add: singleFlight_step del: hookStep.simps)
  show ?case
  proof (cases "c \<in> set (callLog (hookStep h e) es)")
    case True
    with Cons.IH [OF step] show ?thesis .
  next
    case False
    with Cons.prems(3) have e: "e = CallEnsureLoaded"
      and c: "c = \<lparr>pendingBefore = inFlight h, returned = fst (ensureLoaded h),
                 pendingAfter = inFlight (snd (ensureLoaded h))\<rparr>"
      by (auto split: HookEvent.splits simp del: hookStep.simps)
    show ?thesis
    proof (cases "inFlight h")
      case Nil
      then show ?thesis
        using singleFlight_starts [OF Nil] by (simp add: c)
    next
      case (Cons q qs)
      with singleFlight_length [OF Cons.prems(1)] have q: "inFlight h = [q]"
        by simp
      show ?thesis
        by (simp add: c singleFlight_shares [OF Cons.prems(1) q] q)
    qed
  qed
qed

lemma hookRun_snoc: "hookRun (es @ [e]) = hookStep (hookRun es) e"
  by (simp add: hookRun_def)

lemma fetchSettled_stores:
  "p \<in> set (inFlight h) \<Longrightarrow> thenHandler result = Fulfilled d \<Longrightarrow>
   data (hookState (fetchSettled p result h)) = Some d"
  by (simp add: fetchSettled_def)

lemma cached_no_request:
  "scoreCache g sid \<noteq> None \<Longrightarrow>
   map request_id (requests (selectionChanged (Some sid) g)) = map request_id (requests g)"
  by (auto simp: selectionChanged_def scoresEffect_def scoresCleanup_def comp_def)

text \<open>
  C1 (as stated, refuted). Selecting \<^verbatim>\<open>coffee-shops\<close>, then \<^verbatim>\<open>gyms\<close>, then \<^verbatim>\<open>coffee-shops\<close>
  again before any fetch has completed leaves two fetches for \<^verbatim>\<open>coffee-shops\<close> in flight (the
  score effect shares no pending fetch). For the demographics, \<^verbatim>\<open>retry\<close> called while a fetch
  is in flight, between two calls of \<^verbatim>\<open>ensureLoaded\<close>, leaves two fetches in flight, and when a
  fetch fails the caller that started it gets \<^verbatim>\<open>null\<close> while a caller that shared the promise
  gets the rejection.
\<close>

theorem in_flight_counterexample:
  "inFlightFor ''coffee-shops''
     (selectionChanged (Some ''coffee-shops'')
       (selectionChanged (Some ''gyms'')
         (selectionChanged (Some ''coffee-shops'') catalogLoaded))) = 2
   \<and> inFlight (hookRun [CallEnsureLoaded, CallRetry, CallEnsureLoaded :: string HookEvent]) = [0, 1]
   \<and> callerGets (OwnAttempt 0) (thenHandler serverError)
       \<noteq> callerGets (SharedPromise 0) (thenHandler serverError)"
proof -
  have "inFlightFor ''coffee-shops''
     (selectionChanged (Some ''coffee-shops'')
       (selectionChanged (Some ''gyms'')
         (selectionChanged (Some ''coffee-shops'') catalogLoaded))) = 2"
    by (simp add: inFlightFor_def selectionChanged_def scoresEffect_def scoresCleanup_def
        ID_FORMAT_test_def ID_FORMAT_def catalogLoaded_def industriesLoaded_def
        initialIndustryData_def sampleCatalog_def)
  moreover have "inFlight (hookRun [CallEnsureLoaded, CallRetry, CallEnsureLoaded :: string HookEvent]) = [0, 1]"
    by (simp add: hookRun_def ensureLoaded_def retry_def initialCountyData_def)
  moreover have "callerGets (OwnAttempt 0) (thenHandler serverError)
       \<noteq> callerGets (SharedPromise 0) (thenHandler serverError)"
    by (simp add: serverError_def)
  ultimately show ?thesis by simp
qed

text \<open>
  C1 (amended). For the demographics, in every run in which \<^verbatim>\<open>retry\<close> is only called while no
  fetch is in flight, at most one fetch is in flight at any time. A call of \<^verbatim>\<open>ensureLoaded\<close>
  made while a fetch is in flight issues no fetch and returns the pending promise itself, and
  every call after which a fetch is in flight holds that fetch's promise, as the call that
  started it or as a sharer. So when the fetch in flight at the end of the run succeeds with
  the data \<open>d\<close>, the hook stores \<open>d\<close> and each of those callers resolves to \<open>d\<close>. For an
  industry id the only sharing is the cache of completed fetches: selecting an id whose
  scores are cached issues no request.
\<close>

theorem single_flight_retry_when_idle:
  assumes "retriesWhenIdle initialCountyData (es :: 'd HookEvent list)"
  shows "(\<forall>n. length (inFlight (hookRun (take n es))) \<le> 1)
     \<and> (\<forall>c \<in> set (callLog initialCountyData es).
          (\<forall>p. pendingBefore c = [p] \<longrightarrow> returned c = SharedPromise p \<and> pendingAfter c = [p])
          \<and> (\<forall>p. pendingAfter c = [p] \<longrightarrow>
                 returned c = OwnAttempt p \<or> returned c = SharedPromise p))
     \<and> (\<forall>p result d. inFlight (hookRun es) = [p] \<and> thenHandler result = Fulfilled d \<longrightarrow>
          data (hookState (hookRun (es @ [FetchSettles p result]))) = Some d
          \<and> (\<forall>c \<in> set (callLog initialCountyData es). pendingAfter c = [p] \<longrightarrow>
                 callerGets (returned c) (thenHandler result) = ResolvesTo (Some d)))
     \<and> (\<forall>g sid. scoreCache g sid \<noteq> None \<longrightarrow>
            map request_id (requests (selectionChanged (Some sid) g)) = map request_id (requests g))"
proof -
  have c1: "\<forall>n. length (inFlight (hookRun (take n es))) \<le> 1"
  proof
    fix n
    have "retriesWhenIdle initialCountyData (take n es)"
      using assms by (rule retriesWhenIdle_take)
    then have "singleFlight (hookRun (take n es))"
      unfolding hookRun_def by (rule singleFlight_foldl [OF singleFlight_initial])
    then show "length (inFlight (hookRun (take n es))) \<le> 1"
      by (rule singleFlight_length)
  qed
  have c2: "\<forall>c \<in> set (callLog initialCountyData es).
          (\<forall>p. pendingBefore c = [p] \<longrightarrow> returned c = SharedPromise p \<and> pendingAfter c = [p])
          \<and> (\<forall>p. pendingAfter c = [p] \<longrightarrow>
                 returned c = OwnAttempt p \<or> returned c = SharedPromise p)"
    using callLog_calls [OF singleFlight_initial assms] by blast
  have c3: "\<forall>p result d. inFlight (hookRun es) = [p] \<and> thenHandler result = Fulfilled d \<longrightarrow>
          data (hookState (hookRun (es @ [FetchSettles p result]))) = Some d
          \<and> (\<forall>c \<in> set (callLog initialCountyData es). pendingAfter c = [p] \<longrightarrow>
                 callerGets (returned c) (thenHandler result) = ResolvesTo (Some d))"
  proof (intro allI impI conjI ballI)
    fix p and result :: "'d fetchResult" and d
    assume "inFlight (hookRun es) = [p] \<and> thenHandler result = Fulfilled d"
    then show "data (hookState (hookRun (es @ [FetchSettles p result]))) = Some d"
      by (simp add: hookRun_snoc fetchSettled_stores)
  next
    fix p and result :: "'d fetchResult" and d and c
    assume f: "inFlight (hookRun es) = [p] \<and> thenHandler result = Fulfilled d"
      and c: "c \<in> set (callLog initialCountyData es)" and a: "pendingAfter c = [p]"
    from callLog_calls [OF singleFlight_initial assms c] a
    have "returned c = OwnAttempt p \<or> returned c = SharedPromise p"
      by simp
    with f show "callerGets (returned c) (thenHandler result) = ResolvesTo (Some d)"
      by auto
  qed
  have c4: "\<forall>g sid. scoreCache g sid \<noteq> None \<longrightarrow>
      map request_id (requests (selectionChanged (Some sid) g)) = map request_id (requests g)"
    by (simp add: cached_no_request)
  show ?thesis
    by (rule conjI [OF c1 conjI [OF c2 conjI [OF c3 c4]]])
qed

lemma callLog_retryAfterFailure:
  "callLog initialCountyData retryAfterFailure =
     [\<lparr>pendingBefore = [], returned = OwnAttempt 0, pendingAfter = [0]\<rparr>,
      \<lparr>pendingBefore = [], returned = OwnAttempt 1, pendingAfter = [1]\<rparr>,
      \<lparr>pendingBefore = [1], returned = SharedPromise 1, pendingAfter = [1]\<rparr>]"
  by (simp add: retryAfterFailure_def ensureLoaded_def fetchSettled_def render_def retry_def
      serverError_def initialCountyData_def)

lemma retriesWhenIdle_retryAfterFailure: "retriesWhenIdle initialCountyData retryAfterFailure"
  by (simp add: retryAfterFailure_def ensureLoaded_def fetchSettled_def render_def retry_def
      serverError_def initialCountyData_def)

lemma inFlight_retryAfterFailure: "inFlight (hookRun retryAfterFailure) = [1]"
  by (simp add: hookRun_def retryAfterFailure_def ensureLoaded_def fetchSettled_def render_def
      retry_def serverError_def initialCountyData_def)

text \<open>
  A load fails, the failure is rendered, \<^verbatim>\<open>retry\<close> is called and rendered, and
  \<^verbatim>\<open>ensureLoaded\<close> is called twice: the first call starts the second fetch, the second call
  shares it, one fetch is in flight, and when it succeeds both callers get the data that is
  stored.
\<close>

theorem single_flight_retry_when_idle_witness:
  "retriesWhenIdle initialCountyData retryAfterFailure
   \<and> map returned (callLog initialCountyData retryAfterFailure)
       = [OwnAttempt 0, OwnAttempt 1, SharedPromise 1]
   \<and> inFlight (hookRun retryAfterFailure) = [1]
   \<and> length (inFlight (hookRun (take 5 retryAfterFailure))) \<le> 1
   \<and> data (hookState (hookRun (retryAfterFailure @ [FetchSettles 1 success]))) = Some ''demographics''
   \<and> map (\<lambda>c. callerGets (returned c) (thenHandler success))
         (filter (\<lambda>c. pendingAfter c = [1]) (callLog initialCountyData retryAfterFailure))
       = [ResolvesTo (Some ''demographics''), ResolvesTo (Some ''demographics'')]"
proof -
  note t = single_flight_retry_when_idle [OF retriesWhenIdle_retryAfterFailure]
  have s: "thenHandler success = Fulfilled ''demographics''"
    by (simp add: success_def)
  have "length (inFlight (hookRun (take 5 retryAfterFailure))) \<le> 1"
    using t by blast
  moreover have "data (hookState (hookRun (retryAfterFailure @ [FetchSettles 1 success])))
      = Some ''demographics''"
    using t inFlight_retryAfterFailure s by blast
  moreover have "\<forall>c \<in> set (callLog initialCountyData retryAfterFailure). pendingAfter c = [1] \<longrightarrow>
      callerGets (returned c) (thenHandler success) = ResolvesTo (Some ''demographics'')"
    using t inFlight_retryAfterFailure s by blast
  then have "map (\<lambda>c. callerGets (returned c) (thenHandler success))
         (filter (\<lambda>c. pendingAfter c = [1]) (callLog initialCountyData retryAfterFailure))
       = [ResolvesTo (Some ''demographics''), ResolvesTo (Some ''demographics'')]"
    by (simp add: callLog_retryAfterFailure)
  ultimately show ?thesis
    by (simp add: retriesWhenIdle_retryAfterFailure callLog_retryAfterFailure
        inFlight_retryAfterFailure)
qed

text \<open>
  C7 (the code at the failing input). The claim: after a load has failed, every call of
  \<^verbatim>\<open>ensureLoaded\<close> issues no fetch and returns \<^verbatim>\<open>null\<close> until \<^verbatim>\<open>retry\<close>. After a load has
  failed with status 500, a call of \<^verbatim>\<open>ensureLoaded\<close> made before the component has rendered
  again starts a second fetch: \<^verbatim>\<open>stateRef.current\<close> still holds the state of the last render,
  whose error is \<^verbatim>\<open>null\<close>.
\<close>

theorem ensureLoaded_refetches_before_render:
  "error (hookState (hookRun [CallEnsureLoaded, Render, FetchSettles 0 serverError]))
     = Some ''Failed to load demographics: 500''
   \<and> error (stateRef (hookRun [CallEnsureLoaded, Render, FetchSettles 0 serverError])) = None
   \<and> fst (ensureLoaded (hookRun [CallEnsureLoaded, Render, FetchSettles 0 serverError]))
       = OwnAttempt 1
   \<and> inFlight (snd (ensureLoaded (hookRun [CallEnsureLoaded, Render, FetchSettles 0 serverError])))
       = [1]"
  by (simp add: hookRun_def ensureLoaded_def fetchSettled_def render_def serverError_def
      initialCountyData_def)

text \<open>
  What holds once the failure has been rendered: further calls return \<^verbatim>\<open>null\<close> and leave
  the hook as it is, and \<^verbatim>\<open>retry\<close> arms one more attempt.
\<close>

lemma failed_then_null:
  assumes "fetchedRef h" and "promiseRef h = None" and "data (stateRef h) = None"
    and "error (stateRef h) = Some m" and "m \<noteq> []"
  shows "ensureLoaded h = (Now None, h)"
  using assms by (simp add: ensureLoaded_def)

lemma failure_rendered:
  assumes "inFlight h = [p]" and "promiseRef h = Some p" and "fetchedRef h"
    and "thenHandler result = Rejected r"
  shows "fetchedRef (render (fetchSettled p result h))
     \<and> promiseRef (render (fetchSettled p result h)) = None
     \<and> data (stateRef (render (fetchSettled p result h))) = None
     \<and> error (stateRef (render (fetchSettled p result h))) = Some (errorMessage r)"
  using assms by (simp add: fetchSettled_def render_def)

lemma retry_rearms:
  assumes "inFlight h = []" and "data (stateRef h) = None"
  shows "ensureLoaded (retry h) =
     (OwnAttempt (issued h),
      (retry h)\<lparr>fetchedRef := True,
        hookState := \<lparr>data = None, loading = True, error = None\<rparr>,
        inFlight := [issued h], issued := Suc (issued h), promiseRef := Some (issued h)\<rparr>)"
  using assms by (simp add: ensureLoaded_def retry_def)

lemma retry_then_success:
  "hookState (hookRun [CallEnsureLoaded, FetchSettles 0 serverError, Render, CallEnsureLoaded,
       CallRetry, CallEnsureLoaded, FetchSettles 1 success])
     = \<lparr>data = Some ''demographics'', loading = False, error = None\<rparr>
   \<and> issued (hookRun [CallEnsureLoaded, FetchSettles 0 serverError, Render, CallEnsureLoaded,
       CallRetry, CallEnsureLoaded, FetchSettles 1 success]) = 2"
  by (simp add: hookRun_def ensureLoaded_def fetchSettled_def render_def retry_def serverError_def
      success_def initialCountyData_def)

end
